theory Spec2Isabelle
  imports Main
begin

section \<open>JavaScript values used by the POS integration\<close>

text \<open>
  Errors are values. The four kinds the code tells apart are kept apart:
  \<open>error instanceof TypeError\<close>, \<open>error.name === 'AbortError'\<close>,
  \<open>error instanceof SkyTabApiError\<close> (message, code, statusCode, details), and every
  other \<open>Error\<close> (for instance the \<open>SyntaxError\<close> of \<open>response.json()\<close>).
\<close>

datatype js_error =
    TypeError string
  | AbortError string
  | SkyTabApiError string string int "string option"
  | OtherError string

fun errorMessage :: "js_error \<Rightarrow> string" where
  "errorMessage (TypeError m) = m"
| "errorMessage (AbortError m) = m"
| "errorMessage (SkyTabApiError m c s d) = m"
| "errorMessage (OtherError m) = m"

fun isTypeError :: "js_error \<Rightarrow> bool" where
  "isTypeError (TypeError m) = True"
| "isTypeError e = False"

fun isAbortError :: "js_error \<Rightarrow> bool" where
  "isAbortError (AbortError m) = True"
| "isAbortError e = False"

text \<open>A string is truthy when it is defined and not empty (\<open>a || b\<close>, \<open>if (a)\<close>).\<close>

fun truthy :: "string option \<Rightarrow> bool" where
  "truthy None = False"
| "truthy (Some s) = (s \<noteq> [])"

definition orElse :: "string option \<Rightarrow> string option \<Rightarrow> string option" where
  "orElse a b = (if truthy a then a else b)"

text \<open>Decimal rendering of a number inside a template string.\<close>

function showNat :: "nat \<Rightarrow> string" where
  "showNat n =
     (if n < 10 then [char_of (48 + n)]
      else showNat (n div 10) @ [char_of (48 + n mod 10)])"
  by pat_completeness auto
termination
  by (relation "measure (\<lambda>n. n)") auto

definition showInt :: "int \<Rightarrow> string" where
  "showInt i = (if i < 0 then CHR ''-'' # showNat (nat (- i)) else showNat (nat i))"

text \<open>\<open>String.prototype.includes\<close>.\<close>

fun strIncludes :: "string \<Rightarrow> string \<Rightarrow> bool" where
  "strIncludes [] t = (t = [])"
| "strIncludes (c # cs) t = (take (length t) (c # cs) = t \<or> strIncludes cs t)"

text \<open>
  \<open>parseInt(s, 10)\<close>: leading white space is skipped, one sign is read, then the longest
  run of decimal digits; \<open>None\<close> is \<open>NaN\<close> (no digit).
\<close>

definition isSpace :: "char \<Rightarrow> bool" where
  "isSpace c = ((of_char c :: nat) \<in> {9, 10, 11, 12, 13, 32})"

definition isDigit :: "char \<Rightarrow> bool" where
  "isDigit c = (48 \<le> (of_char c :: nat) \<and> (of_char c :: nat) \<le> 57)"

definition digitsValue :: "string \<Rightarrow> int" where
  "digitsValue ds = foldl (\<lambda>acc c. 10 * acc + (int (of_char c) - 48)) 0 ds"

definition parseDigits :: "string \<Rightarrow> int option" where
  "parseDigits s =
     (let ds = takeWhile isDigit s in if ds = [] then None else Some (digitsValue ds))"

definition parseInt10 :: "string \<Rightarrow> int option" where
  "parseInt10 s =
     (case dropWhile isSpace s of
        [] \<Rightarrow> None
      | c # cs \<Rightarrow>
          if c = CHR ''-'' then map_option uminus (parseDigits cs)
          else if c = CHR ''+'' then parseDigits cs
          else parseDigits (c # cs))"

section \<open>The POS client (skytab.client.ts)\<close>

record config =
  SKYTAB_API_KEY :: "string option"
  SKYTAB_API_SECRET :: "string option"
  SHIFT4_API_KEY :: "string option"
  SHIFT4_API_SECRET :: "string option"
  SKYTAB_WEBHOOK_SECRET :: "string option"

definition RATE_LIMIT_REQUESTS_PER_MINUTE :: nat where
  "RATE_LIMIT_REQUESTS_PER_MINUTE = 60"

definition RATE_LIMIT_WINDOW_MS :: int where
  "RATE_LIMIT_WINDOW_MS = 60 * 1000"

definition DEFAULT_TIMEOUT_MS :: int where
  "DEFAULT_TIMEOUT_MS = 30000"

definition DEFAULT_RETRIES :: int where
  "DEFAULT_RETRIES = 3"

definition DEFAULT_RETRY_DELAY_MS :: int where
  "DEFAULT_RETRY_DELAY_MS = 1000"

text \<open>
  Every \<open>this.sleep(ms)\<close> is logged with the place it is called from: the rate limiter,
  the back-off of a retry, or the wait the \<open>Retry-After\<close> header asks for.
\<close>

datatype sleep_site = RateLimitWait | BackoffWait | RetryAfterWait

text \<open>
  A \<open>Date\<close>. \<open>new Date(t)\<close> holds the time value \<open>t\<close> when its magnitude is at most
  8.64e15 ms and is an Invalid Date otherwise; \<open>a < b\<close> on two dates compares their time
  values and is false when either is invalid. Clock readings (\<open>Date.now()\<close>) are time
  values and \<open>expiresIn\<close> is a whole number of seconds, for which the sums below are exact
  in the arithmetic of the source.
\<close>

datatype js_date = InvalidDate | DateAt int

definition validTime :: "int \<Rightarrow> bool" where
  "validTime t = (- 8640000000000000 \<le> t \<and> t \<le> 8640000000000000)"

definition newDate :: "int \<Rightarrow> js_date" where
  "newDate t = (if validTime t then DateAt t else InvalidDate)"

fun dateBefore :: "js_date \<Rightarrow> js_date \<Rightarrow> bool" where
  "dateBefore (DateAt a) (DateAt b) = (a < b)"
| "dateBefore a b = False"

text \<open>
  The client object. \<open>accessToken\<close>, \<open>tokenExpiry\<close> (a \<open>Date\<close>) and
  \<open>requestQueue\<close> (the queued timestamps) are its fields; \<open>authCalls\<close> counts the calls to
  the credential-exchange endpoint, \<open>fetchCalls\<close> the calls to the vendor API, and
  \<open>sleeps\<close> lists the waits in the order they happen.
\<close>

record client =
  accessToken :: "string option"
  tokenExpiry :: "js_date option"
  requestQueue :: "int list"
  authCalls :: nat
  fetchCalls :: nat
  sleeps :: "(sleep_site \<times> int) list"

definition sleep :: "sleep_site \<Rightarrow> int \<Rightarrow> client \<Rightarrow> client" where
  "sleep site ms c = c\<lparr>sleeps := sleeps c @ [(site, ms)]\<rparr>"

text \<open>
  What the credential-exchange endpoint does when it is called: the call throws, answers
  with a status that is not ok (its \<open>statusText\<close>), or answers
  \<open>{ result: { accessToken, expiresIn } }\<close>.
\<close>

datatype auth_reply =
    AuthThrows js_error
  | AuthNotOk string
  | AuthOk string int

definition bufferMs :: int where
  "bufferMs = 5 * 60 * 1000"

text \<open>
  \<open>getAccessToken\<close>, in two parts. \<open>exchangeCredentials\<close> is the part after the cache
  check (lines 51 to 91): the guard on the configured credentials, the call, and the store
  of its answer. \<open>ex\<close> is the endpoint's answer should it be called, and \<open>grantedAt\<close>
  is \<open>Date.now()\<close> when the answer is stored.
\<close>

definition exchangeCredentials ::
  "config \<Rightarrow> auth_reply \<Rightarrow> int \<Rightarrow> client \<Rightarrow> (js_error + string) \<times> client" where
  "exchangeCredentials cfg ex grantedAt c =
     (let apiKey = orElse (SKYTAB_API_KEY cfg) (SHIFT4_API_KEY cfg);
          apiSecret = orElse (SKYTAB_API_SECRET cfg) (SHIFT4_API_SECRET cfg)
      in if \<not> (truthy apiKey \<and> truthy apiSecret)
         then (Inl (OtherError ''SkyTab API credentials not configured''), c)
         else
           (let c1 = c\<lparr>authCalls := authCalls c + 1\<rparr> in
            case ex of
              AuthThrows e \<Rightarrow> (Inl e, c1)
            | AuthNotOk statusText \<Rightarrow>
                (Inl (OtherError (''SkyTab authentication failed: '' @ statusText)), c1)
            | AuthOk tok expiresIn \<Rightarrow>
                (Inr tok,
                 c1\<lparr>accessToken := Some tok,
                    tokenExpiry := Some (newDate (grantedAt + expiresIn * 1000))\<rparr>)))"

text \<open>
  The cache check (lines 44 to 49); \<open>now\<close> is \<open>Date.now()\<close> there. An empty token is
  falsy, so it is never served from the cache; neither is a token whose expiry is an
  Invalid Date, since the comparison of line 46 is then false.
\<close>

definition getAccessToken ::
  "config \<Rightarrow> int \<Rightarrow> auth_reply \<Rightarrow> int \<Rightarrow> client \<Rightarrow> (js_error + string) \<times> client" where
  "getAccessToken cfg now ex grantedAt c =
     (case (accessToken c, tokenExpiry c) of
        (Some tok, Some expiry) \<Rightarrow>
          if tok \<noteq> [] \<and> dateBefore (newDate (now + bufferMs)) expiry then (Inr tok, c)
          else exchangeCredentials cfg ex grantedAt c
      | _ \<Rightarrow> exchangeCredentials cfg ex grantedAt c)"

text \<open>
  \<open>checkRateLimit\<close>. \<open>now\<close> is \<open>Date.now()\<close> on entry and \<open>queuedAt\<close> is
  \<open>Date.now()\<close> when the request is pushed on the queue. The oldest request is read only
  when the queue holds at least 60 entries, so it exists.
\<close>

definition checkRateLimit :: "int \<Rightarrow> int \<Rightarrow> client \<Rightarrow> client" where
  "checkRateLimit now queuedAt c =
     (let q = filter (\<lambda>t. now - t < RATE_LIMIT_WINDOW_MS) (requestQueue c);
          c1 = c\<lparr>requestQueue := q\<rparr>;
          c2 = (if length q \<ge> RATE_LIMIT_REQUESTS_PER_MINUTE
                then (case q of
                        [] \<Rightarrow> c1
                      | oldestRequest # rest \<Rightarrow>
                          (let waitTime = RATE_LIMIT_WINDOW_MS - (now - oldestRequest)
                           in if waitTime > 0 then sleep RateLimitWait waitTime c1 else c1))
                else c1)
      in c2\<lparr>requestQueue := requestQueue c2 @ [queuedAt]\<rparr>)"

definition getBackoffDelay :: "nat \<Rightarrow> int \<Rightarrow> int" where
  "getBackoffDelay attempt baseDelay = min (baseDelay * 2 ^ attempt) 30000"

definition isRetryableError :: "int \<Rightarrow> js_error option \<Rightarrow> bool" where
  "isRetryableError status err =
     (if status \<ge> 500 \<or> status = 429 then True
      else (case err of
              Some (TypeError m) \<Rightarrow> strIncludes m ''fetch''
            | _ \<Rightarrow> False))"

text \<open>
  \<open>SkyTabRequestOptions\<close>; an absent \<open>options\<close> object is the record of three
  \<open>None\<close>s. \<open>timeout\<close> and \<open>retryDelay\<close> fall back with \<open>||\<close> (so \<open>0\<close> falls
  back too), \<open>retries\<close> with \<open>??\<close>.
\<close>

record options =
  timeout :: "int option"
  retries :: "int option"
  retryDelay :: "int option"

definition timeoutOf :: "options \<Rightarrow> int" where
  "timeoutOf opts =
     (case timeout opts of None \<Rightarrow> DEFAULT_TIMEOUT_MS
      | Some t \<Rightarrow> if t = 0 then DEFAULT_TIMEOUT_MS else t)"

definition maxRetriesOf :: "options \<Rightarrow> int" where
  "maxRetriesOf opts = (case retries opts of None \<Rightarrow> DEFAULT_RETRIES | Some r \<Rightarrow> r)"

definition baseRetryDelayOf :: "options \<Rightarrow> int" where
  "baseRetryDelayOf opts =
     (case retryDelay opts of None \<Rightarrow> DEFAULT_RETRY_DELAY_MS
      | Some d \<Rightarrow> if d = 0 then DEFAULT_RETRY_DELAY_MS else d)"

text \<open>
  The vendor's answer to one \<open>fetch\<close>. The parsed body is \<open>null\<close> or a value whose
  \<open>error\<close> member (code, message, details) may be absent; \<open>'a\<close> is the type \<open>T\<close> of
  \<open>request<T>\<close>. A reply is a rejected \<open>fetch\<close>, or a response with its status, its
  \<open>Retry-After\<close> header, and its body (\<open>None\<close> when \<open>response.json()\<close> rejects).
\<close>

record error_info =
  code :: "string option"
  message :: "string option"
  details :: "string option"

datatype 'a json = JsonNull | JsonValue "error_info option" 'a

datatype 'a api_reply =
    FetchThrows js_error
  | Response int "string option" "'a json option"

text \<open>What one pass of the loop reads from the outside world.\<close>

record 'a attempt_io =
  rateNow :: int
  queuedNow :: int
  tokenNow :: int
  exchange :: auth_reply
  grantedNow :: int
  reply :: "'a api_reply"

definition responseOk :: "int \<Rightarrow> bool" where
  "responseOk status = (200 \<le> status \<and> status \<le> 299)"

text \<open>
  How one pass of the loop ends: the call returns, the call throws, or the loop goes on
  with \<open>lastError\<close> as given.
\<close>

datatype 'a step = Return 'a | Throw js_error | Continue "js_error option"

text \<open>The \<open>catch\<close> block of the loop body (lines 250 to 278).\<close>

definition catchBlock ::
  "int \<Rightarrow> int \<Rightarrow> int \<Rightarrow> nat \<Rightarrow> js_error \<Rightarrow> client \<Rightarrow> 'a step \<times> client" where
  "catchBlock timeoutMs maxRetries baseRetryDelay attempt error c =
     (let lastError =
            (if isAbortError error
             then SkyTabApiError (''Request timeout after '' @ showInt timeoutMs @ ''ms'')
                    ''TIMEOUT'' 408 None
             else error)
      in if isTypeError error \<and> int attempt < maxRetries
         then (Continue (Some lastError),
               sleep BackoffWait (getBackoffDelay attempt baseRetryDelay) c)
         else (case error of
                 SkyTabApiError m cd statusCode d \<Rightarrow>
                   if isRetryableError statusCode None then (Continue (Some lastError), c)
                   else (Throw error, c)
               | _ \<Rightarrow> (Continue (Some lastError), c)))"

text \<open>The error thrown at line 233 from the parsed error body.\<close>

definition apiErrorOf :: "int \<Rightarrow> error_info option \<Rightarrow> js_error" where
  "apiErrorOf status err =
     SkyTabApiError
       (case Option.bind err message of
          Some m \<Rightarrow> if m = [] then ''Request failed with status '' @ showInt status else m
        | None \<Rightarrow> ''Request failed with status '' @ showInt status)
       (case Option.bind err code of
          Some cd \<Rightarrow> if cd = [] then ''UNKNOWN_ERROR'' else cd
        | None \<Rightarrow> ''UNKNOWN_ERROR'')
       status
       (Option.bind err details)"

text \<open>
  The wait of the \<open>Retry-After\<close> branch (line 226):
  \<open>parseInt(retryAfter, 10) * 1000 || getBackoffDelay(attempt, baseRetryDelay)\<close>.
\<close>

definition retryAfterDelay :: "string \<Rightarrow> nat \<Rightarrow> int \<Rightarrow> int" where
  "retryAfterDelay retryAfter attempt baseRetryDelay =
     (case parseInt10 retryAfter of
        None \<Rightarrow> getBackoffDelay attempt baseRetryDelay
      | Some n \<Rightarrow> if n * 1000 = 0 then getBackoffDelay attempt baseRetryDelay else n * 1000)"

text \<open>
  The handling of a response that is not ok (lines 203 to 239). Reading
  \<open>errorData.error\<close> of a \<open>null\<close> body throws a \<open>TypeError\<close>, which the \<open>catch\<close>
  block receives; the branches are in the order of the source.
\<close>

definition notOkResponse ::
  "int \<Rightarrow> int \<Rightarrow> int \<Rightarrow> nat \<Rightarrow> js_error option \<Rightarrow> int \<Rightarrow> string option \<Rightarrow> 'a json
     \<Rightarrow> client \<Rightarrow> 'a json step \<times> client" where
  "notOkResponse timeoutMs maxRetries baseRetryDelay attempt lastError status retryAfter
       responseData c =
     (if isRetryableError status None \<and> int attempt < maxRetries
      then (case responseData of
              JsonNull \<Rightarrow>
                catchBlock timeoutMs maxRetries baseRetryDelay attempt
                  (TypeError ''Cannot read properties of null (reading 'error')'') c
            | JsonValue err v \<Rightarrow>
                (Continue lastError,
                 sleep BackoffWait (getBackoffDelay attempt baseRetryDelay) c))
      else if status = 429 \<and> truthy retryAfter \<and> int attempt < maxRetries
      then (Continue lastError,
            sleep RetryAfterWait
              (retryAfterDelay (case retryAfter of Some h \<Rightarrow> h | None \<Rightarrow> [])
                 attempt baseRetryDelay) c)
      else (case responseData of
              JsonNull \<Rightarrow>
                catchBlock timeoutMs maxRetries baseRetryDelay attempt
                  (TypeError ''Cannot read properties of null (reading 'error')'') c
            | JsonValue err v \<Rightarrow>
                catchBlock timeoutMs maxRetries baseRetryDelay attempt
                  (apiErrorOf status err) c))"

text \<open>
  One pass of the loop of \<open>request\<close> (lines 167 to 278). \<open>response.json()\<close> is awaited
  before \<open>response.ok\<close> is read; when it rejects, its \<open>SyntaxError\<close> (whose message
  depends on the body; the one of an empty body is used) goes to the \<open>catch\<close> block.
\<close>

definition requestAttempt ::
  "config \<Rightarrow> int \<Rightarrow> int \<Rightarrow> int \<Rightarrow> 'a attempt_io \<Rightarrow> nat \<Rightarrow> js_error option \<Rightarrow> client
     \<Rightarrow> 'a json step \<times> client" where
  "requestAttempt cfg timeoutMs maxRetries baseRetryDelay io attempt lastError c =
     (let c1 = checkRateLimit (rateNow io) (queuedNow io) c in
      case getAccessToken cfg (tokenNow io) (exchange io) (grantedNow io) c1 of
        (Inl e, c2) \<Rightarrow> catchBlock timeoutMs maxRetries baseRetryDelay attempt e c2
      | (Inr token, c2) \<Rightarrow>
          (let c3 = c2\<lparr>fetchCalls := fetchCalls c2 + 1\<rparr> in
           case reply io of
             FetchThrows e \<Rightarrow> catchBlock timeoutMs maxRetries baseRetryDelay attempt e c3
           | Response status retryAfter body \<Rightarrow>
               (case body of
                  None \<Rightarrow>
                    catchBlock timeoutMs maxRetries baseRetryDelay attempt
                      (OtherError ''Unexpected end of JSON input'') c3
                | Some responseData \<Rightarrow>
                    if \<not> responseOk status
                    then notOkResponse timeoutMs maxRetries baseRetryDelay attempt lastError
                           status retryAfter responseData c3
                    else (Return responseData, c3))))"

text \<open>
  The loop \<open>for (let attempt = 0; attempt <= maxRetries; attempt++)\<close> and the throw after
  it. \<open>io k\<close> is what pass \<open>k\<close> reads from the outside world.
\<close>

function requestLoop ::
  "config \<Rightarrow> int \<Rightarrow> int \<Rightarrow> int \<Rightarrow> (nat \<Rightarrow> 'a attempt_io) \<Rightarrow> nat \<Rightarrow> js_error option \<Rightarrow> client
     \<Rightarrow> (js_error + 'a json) \<times> client" where
  "requestLoop cfg timeoutMs maxRetries baseRetryDelay io attempt lastError c =
     (if int attempt \<le> maxRetries
      then (case requestAttempt cfg timeoutMs maxRetries baseRetryDelay (io attempt) attempt
                   lastError c of
              (Return v, c') \<Rightarrow> (Inr v, c')
            | (Throw e, c') \<Rightarrow> (Inl e, c')
            | (Continue lastError', c') \<Rightarrow>
                requestLoop cfg timeoutMs maxRetries baseRetryDelay io (Suc attempt)
                  lastError' c')
      else (case lastError of
              Some e \<Rightarrow> (Inl e, c)
            | None \<Rightarrow> (Inl (OtherError ''Request failed after all retries''), c)))"
  by pat_completeness auto
termination
  by (relation "measure (\<lambda>(cfg, timeoutMs, maxRetries, baseRetryDelay, io, attempt, lastError, c).
        nat (maxRetries + 1 - int attempt))") auto

definition request ::
  "config \<Rightarrow> options \<Rightarrow> (nat \<Rightarrow> 'a attempt_io) \<Rightarrow> client \<Rightarrow> (js_error + 'a json) \<times> client" where
  "request cfg opts io c =
     requestLoop cfg (timeoutOf opts) (maxRetriesOf opts) (baseRetryDelayOf opts) io 0 None c"

subsection \<open>Predicates and fixtures for the statements about the client\<close>

text \<open>Both credentials are configured: the guard of line 54 lets the call through.\<close>

definition credentialsConfigured :: "config \<Rightarrow> bool" where
  "credentialsConfigured cfg =
     (truthy (orElse (SKYTAB_API_KEY cfg) (SHIFT4_API_KEY cfg)) \<and>
      truthy (orElse (SKYTAB_API_SECRET cfg) (SHIFT4_API_SECRET cfg)))"

text \<open>The cached token is served at time \<open>now\<close>: the test of lines 44 to 46.\<close>

definition cacheValid :: "client \<Rightarrow> int \<Rightarrow> bool" where
  "cacheValid c now =
     (case (accessToken c, tokenExpiry c) of
        (Some tok, Some expiry) \<Rightarrow> tok \<noteq> [] \<and> dateBefore (newDate (now + bufferMs)) expiry
      | _ \<Rightarrow> False)"

text \<open>
  A sequence of calls of \<open>getAccessToken\<close> on one client, each with its two clock readings
  and the answer the endpoint would give.
\<close>

fun getAccessTokens ::
  "config \<Rightarrow> (int \<times> auth_reply \<times> int) list \<Rightarrow> client \<Rightarrow> (js_error + string) list \<times> client" where
  "getAccessTokens cfg [] c = ([], c)"
| "getAccessTokens cfg ((now, ex, grantedAt) # calls) c =
     (case getAccessToken cfg now ex grantedAt c of
        (r, c1) \<Rightarrow> (case getAccessTokens cfg calls c1 of (rs, c2) \<Rightarrow> (r # rs, c2)))"

definition testConfig :: config where
  "testConfig =
     \<lparr>SKYTAB_API_KEY = Some ''test-api-key'', SKYTAB_API_SECRET = Some ''test-api-secret'',
      SHIFT4_API_KEY = Some ''test-shift4-key'', SHIFT4_API_SECRET = Some ''test-shift4-secret'',
      SKYTAB_WEBHOOK_SECRET = Some ''test-webhook-secret''\<rparr>"

definition noCredentials :: config where
  "noCredentials =
     \<lparr>SKYTAB_API_KEY = None, SKYTAB_API_SECRET = None, SHIFT4_API_KEY = None,
      SHIFT4_API_SECRET = None, SKYTAB_WEBHOOK_SECRET = None\<rparr>"

definition newClient :: client where
  "newClient =
     \<lparr>accessToken = None, tokenExpiry = None, requestQueue = [], authCalls = 0,
      fetchCalls = 0, sleeps = []\<rparr>"

definition noOptions :: options where
  "noOptions = \<lparr>timeout = None, retries = None, retryDelay = None\<rparr>"

definition shortDelay :: options where
  "shortDelay = \<lparr>timeout = None, retries = None, retryDelay = Some 10\<rparr>"

definition errorBody :: "string \<Rightarrow> string \<Rightarrow> 'a \<Rightarrow> 'a json" where
  "errorBody cd msg v =
     JsonValue (Some \<lparr>code = Some cd, message = Some msg, details = None\<rparr>) v"

definition replying :: "(nat \<Rightarrow> 'a api_reply) \<Rightarrow> nat \<Rightarrow> 'a attempt_io" where
  "replying f k =
     \<lparr>rateNow = 0, queuedNow = 0, tokenNow = 0, exchange = AuthOk ''test-token-123'' 3600,
      grantedNow = 0, reply = f k\<rparr>"

definition always500 :: "nat \<Rightarrow> unit api_reply" where
  "always500 k = Response 500 None (Some (errorBody ''INTERNAL_ERROR'' ''Server error'' ()))"

definition badRequest :: "nat \<Rightarrow> unit api_reply" where
  "badRequest k = Response 400 None (Some (errorBody ''INVALID_REQUEST'' ''Bad request'' ()))"

definition rateLimitedOnce :: "nat \<Rightarrow> unit api_reply" where
  "rateLimitedOnce k =
     (if k = 0
      then Response 429 (Some ''1'') (Some (errorBody ''RATE_LIMIT_EXCEEDED'' ''Too many requests'' ()))
      else Response 200 None (Some (JsonValue None ())))"

definition cachedClient :: client where
  "cachedClient =
     \<lparr>accessToken = Some ''test-token-123'', tokenExpiry = Some (DateAt 3600000), requestQueue = [],
      authCalls = 1, fetchCalls = 0, sleeps = []\<rparr>"

definition emptyTokenClient :: client where
  "emptyTokenClient =
     \<lparr>accessToken = Some [], tokenExpiry = Some (DateAt 3600000), requestQueue = [],
      authCalls = 1, fetchCalls = 0, sleeps = []\<rparr>"

definition emptyBadRequest :: "nat \<Rightarrow> unit api_reply" where
  "emptyBadRequest k = Response 400 None None"

definition always500Empty :: "nat \<Rightarrow> unit api_reply" where
  "always500Empty k = Response 500 None None"

section \<open>The provider adapter (skytab.provider.ts)\<close>

text \<open>\<open>SkyTabTicketStatus\<close>, the six statuses of \<open>POSOrderStatus\<close>, and \<open>ORDER_STATUSES\<close>.\<close>

definition vendorStatuses :: "string list" where
  "vendorStatuses =
     [''PENDING'', ''CONFIRMED'', ''PREPARING'', ''READY'', ''OUT_FOR_DELIVERY'', ''COMPLETED'',
      ''CANCELLED'']"

definition posOrderStatuses :: "string list" where
  "posOrderStatuses =
     [''pending'', ''confirmed'', ''preparing'', ''ready'', ''completed'', ''cancelled'']"

definition ORDER_STATUSES :: "string list" where
  "ORDER_STATUSES =
     [''pending'', ''confirmed'', ''preparing'', ''ready'', ''out-for-delivery'', ''completed'',
      ''cancelled'']"

definition mapSkyTabStatusToLocal :: "string \<Rightarrow> string" where
  "mapSkyTabStatusToLocal status =
     (if status = ''PENDING'' then ''pending''
      else if status = ''CONFIRMED'' then ''confirmed''
      else if status = ''PREPARING'' then ''preparing''
      else if status = ''READY'' then ''ready''
      else if status = ''OUT_FOR_DELIVERY'' then ''ready''
      else if status = ''COMPLETED'' then ''completed''
      else if status = ''CANCELLED'' then ''cancelled''
      else ''pending'')"






section \<open>The persisted state\<close>

text \<open>
  The tables the POS integration reads and writes, each a list of rows in table order, with
  the columns the code touches. Timestamps are milliseconds since the epoch; the text of
  \<open>estimatedReadyTime\<close> is stored as it is received.
\<close>

record order_row =
  o_id :: string
  o_posOrderId :: "string option"
  o_status :: string
  o_posSyncStatus :: string
  o_posSyncedAt :: "int option"
  o_estimatedReadyAt :: "string option"
  o_cancelledAt :: "int option"

record history_row =
  h_orderId :: string
  h_status :: string
  h_note :: string
  h_changedBy :: string

record location_row =
  l_id :: string
  l_posLocationId :: "string option"

record menu_row =
  m_id :: string
  m_locationId :: string
  m_lastSyncAt :: "int option"

record menu_item_row =
  i_id :: string
  i_posItemId :: "string option"
  i_is86ed :: bool
  i_isAvailable :: bool
  i_updatedAt :: int

text \<open>
  The \<open>changes\<close> column of an audit row: of a webhook record (event type, location, status,
  error message, time), or of a change of opening hours (location, time).
\<close>

datatype audit_changes =
    WebhookChanges string string string "string option" int
  | HoursChanges string int

record audit_row =
  a_action :: string
  a_entityType :: string
  a_entityId :: string
  a_changes :: audit_changes

record webhook_event_row =
  w_eventId :: string
  w_eventType :: string
  w_locationGuid :: string
  w_status :: string
  w_processedAt :: "int option"
  w_errorMessage :: "string option"
  w_retryCount :: int

record failed_request_row =
  f_id :: string
  f_requestType :: string
  f_orderId :: "string option"
  f_status :: string
  f_retryCount :: int
  f_maxRetries :: int
  f_nextRetryAt :: "int option"
  f_errorMessage :: "string option"
  f_completedAt :: "int option"

record store =
  orders :: "order_row list"
  orderStatusHistory :: "history_row list"
  locations :: "location_row list"
  menus :: "menu_row list"
  menuItems :: "menu_item_row list"
  auditLog :: "audit_row list"
  webhookEvents :: "webhook_event_row list"
  failedRequests :: "failed_request_row list"

text \<open>
  The database calls the code makes. A call rejects when the database fails; \<open>faults\<close>
  says which calls reject during one run, and with which message (as the mocks of the
  repository's tests do).
\<close>

datatype db_op =
    OrderFindFirst | OrderUpdate | OrderStatusHistoryCreate
  | LocationFindFirst | MenuUpdateMany
  | MenuItemFindFirst | MenuItemUpdate | MenuItemUpdateMany
  | AuditLogFindFirst | AuditLogCreate
  | WebhookEventCreate | WebhookEventUpdate
  | FailedRequestFindMany | FailedRequestUpdate

type_synonym faults = "db_op \<Rightarrow> string option"

section \<open>The webhook processor (skytab.webhook.ts)\<close>

text \<open>
  \<open>SkyTabWebhookData\<close>: the ticket variant (ticketGuid, externalReference, status,
  estimatedReadyTime, cancellationReason), the menu variant (changedItems), the stock
  variant (itemGuid and isAvailable of each item), the location variant, and a missing
  \<open>data\<close>. The handlers cast without a check, so each reads the members it names from
  whatever variant arrives; a member the variant lacks is \<open>undefined\<close>.
\<close>

datatype webhook_data =
    TicketData string string string "string option" "string option"
  | MenuData "string list option"
  | StockData "(string \<times> bool) list"
  | LocationData
  | NoData

record webhook_payload =
  p_eventType :: string
  p_eventId :: string
  p_locationGuid :: string
  p_data :: webhook_data

fun ticketGuidOf :: "webhook_data \<Rightarrow> string option" where
  "ticketGuidOf (TicketData g r s e c) = Some g"
| "ticketGuidOf d = None"

fun externalReferenceOf :: "webhook_data \<Rightarrow> string option" where
  "externalReferenceOf (TicketData g r s e c) = Some r"
| "externalReferenceOf d = None"

fun statusOf :: "webhook_data \<Rightarrow> string option" where
  "statusOf (TicketData g r s e c) = Some s"
| "statusOf d = None"

fun estimatedReadyTimeOf :: "webhook_data \<Rightarrow> string option" where
  "estimatedReadyTimeOf (TicketData g r s e c) = e"
| "estimatedReadyTimeOf d = None"

fun cancellationReasonOf :: "webhook_data \<Rightarrow> string option" where
  "cancellationReasonOf (TicketData g r s e c) = c"
| "cancellationReasonOf d = None"

fun changedItemsOf :: "webhook_data \<Rightarrow> string list option" where
  "changedItemsOf (MenuData items) = items"
| "changedItemsOf d = None"

fun itemsOf :: "webhook_data \<Rightarrow> (string \<times> bool) list option" where
  "itemsOf (StockData items) = Some items"
| "itemsOf d = None"

definition mapSkyTabStatusToOrderStatus :: "string \<Rightarrow> string" where
  "mapSkyTabStatusToOrderStatus status =
     (if status = ''PENDING'' then ''pending''
      else if status = ''CONFIRMED'' then ''confirmed''
      else if status = ''PREPARING'' then ''preparing''
      else if status = ''READY'' then ''ready''
      else if status = ''OUT_FOR_DELIVERY'' then ''out-for-delivery''
      else if status = ''COMPLETED'' then ''completed''
      else if status = ''CANCELLED'' then ''cancelled''
      else ''pending'')"

text \<open>
  The filter \<open>OR: [{ posOrderId: ticketGuid }, { id: externalReference }]\<close>; a member
  that is \<open>undefined\<close> selects no row.
\<close>

definition orderMatches :: "string option \<Rightarrow> string option \<Rightarrow> order_row \<Rightarrow> bool" where
  "orderMatches ticketGuid externalReference row =
     ((case ticketGuid of Some g \<Rightarrow> o_posOrderId row = Some g | None \<Rightarrow> False) \<or>
      (case externalReference of Some r \<Rightarrow> o_id row = r | None \<Rightarrow> False))"

text \<open>
  The handlers. Each returns the error it throws, if any, and the state it leaves: a write
  made before a later call rejects stays made. \<open>now\<close> is the clock during the run.
\<close>

definition handleTicketEvent ::
  "faults \<Rightarrow> int \<Rightarrow> webhook_data \<Rightarrow> store \<Rightarrow> js_error option \<times> store" where
  "handleTicketEvent fl now d st =
     (if d = NoData
      then (Some (TypeError ''Cannot destructure property of undefined''), st)
      else case fl OrderFindFirst of
        Some msg \<Rightarrow> (Some (OtherError msg), st)
      | None \<Rightarrow>
         (case find (orderMatches (ticketGuidOf d) (externalReferenceOf d)) (orders st) of
            None \<Rightarrow> (None, st)
          | Some order \<Rightarrow>
             (let newStatus = (case statusOf d of
                                 Some s \<Rightarrow> mapSkyTabStatusToOrderStatus s
                               | None \<Rightarrow> ''pending'')
              in case fl OrderUpdate of
                Some msg \<Rightarrow> (Some (OtherError msg), st)
              | None \<Rightarrow>
                 (let st1 = st\<lparr>orders :=
                        map (\<lambda>row. if o_id row = o_id order
                               then row\<lparr>o_status := newStatus,
                                      o_posOrderId :=
                                        (case ticketGuidOf d of Some g \<Rightarrow> Some g
                                         | None \<Rightarrow> o_posOrderId row),
                                      o_posSyncStatus := ''synced'',
                                      o_posSyncedAt := Some now,
                                      o_estimatedReadyAt :=
                                        (if truthy (estimatedReadyTimeOf d)
                                         then estimatedReadyTimeOf d
                                         else o_estimatedReadyAt row)\<rparr>
                               else row) (orders st)\<rparr>
                  in case fl OrderStatusHistoryCreate of
                    Some msg \<Rightarrow> (Some (OtherError msg), st1)
                  | None \<Rightarrow>
                     (None, st1\<lparr>orderStatusHistory := orderStatusHistory st1 @
                        [\<lparr>h_orderId = o_id order, h_status = newStatus,
                          h_note = ''Status updated from SkyTab POS: '' @
                            (case statusOf d of Some s \<Rightarrow> s | None \<Rightarrow> ''undefined''),
                          h_changedBy = ''system''\<rparr>]\<rparr>)))))"

definition handleTicketCancelled ::
  "faults \<Rightarrow> int \<Rightarrow> webhook_data \<Rightarrow> store \<Rightarrow> js_error option \<times> store" where
  "handleTicketCancelled fl now d st =
     (if d = NoData
      then (Some (TypeError ''Cannot destructure property of undefined''), st)
      else case fl OrderFindFirst of
        Some msg \<Rightarrow> (Some (OtherError msg), st)
      | None \<Rightarrow>
         (case find (orderMatches (ticketGuidOf d) (externalReferenceOf d)) (orders st) of
            None \<Rightarrow> (None, st)
          | Some order \<Rightarrow>
             (case fl OrderUpdate of
                Some msg \<Rightarrow> (Some (OtherError msg), st)
              | None \<Rightarrow>
                 (let st1 = st\<lparr>orders :=
                        map (\<lambda>row. if o_id row = o_id order
                               then row\<lparr>o_status := ''cancelled'',
                                      o_cancelledAt := Some now,
                                      o_posSyncStatus := ''synced''\<rparr>
                               else row) (orders st)\<rparr>
                  in case fl OrderStatusHistoryCreate of
                    Some msg \<Rightarrow> (Some (OtherError msg), st1)
                  | None \<Rightarrow>
                     (None, st1\<lparr>orderStatusHistory := orderStatusHistory st1 @
                        [\<lparr>h_orderId = o_id order, h_status = ''cancelled'',
                          h_note = ''Cancelled from SkyTab POS'' @
                            (if truthy (cancellationReasonOf d)
                             then '': '' @ (case cancellationReasonOf d of
                                             Some r \<Rightarrow> r | None \<Rightarrow> [])
                             else []),
                          h_changedBy = ''system''\<rparr>]\<rparr>)))))"

definition handleMenuEvent ::
  "faults \<Rightarrow> int \<Rightarrow> webhook_data \<Rightarrow> string \<Rightarrow> store \<Rightarrow> js_error option \<times> store" where
  "handleMenuEvent fl now d locationGuid st =
     (if d = NoData
      then (Some (TypeError ''Cannot read properties of undefined (reading 'changedItems')''),
            st)
      else case fl LocationFindFirst of
        Some msg \<Rightarrow> (Some (OtherError msg), st)
      | None \<Rightarrow>
         (case find (\<lambda>row. l_posLocationId row = Some locationGuid) (locations st) of
            None \<Rightarrow> (None, st)
          | Some location \<Rightarrow>
             (case fl MenuUpdateMany of
                Some msg \<Rightarrow> (Some (OtherError msg), st)
              | None \<Rightarrow>
                 (let st1 = st\<lparr>menus :=
                        map (\<lambda>row. if m_locationId row = l_id location
                               then row\<lparr>m_lastSyncAt := None\<rparr> else row) (menus st)\<rparr>
                  in case changedItemsOf d of
                    None \<Rightarrow> (None, st1)
                  | Some changedItems \<Rightarrow>
                     if changedItems = [] then (None, st1)
                     else (case fl MenuItemUpdateMany of
                             Some msg \<Rightarrow> (Some (OtherError msg), st1)
                           | None \<Rightarrow>
                              (None, st1\<lparr>menuItems :=
                                 map (\<lambda>row.
                                        if (case i_posItemId row of
                                              Some g \<Rightarrow> g \<in> set changedItems
                                            | None \<Rightarrow> False)
                                        then row\<lparr>i_updatedAt := now\<rparr> else row)
                                   (menuItems st1)\<rparr>))))))"

text \<open>One item of a stock event; whatever its \<open>try\<close> block throws is logged and dropped.\<close>

definition updateStockItem :: "faults \<Rightarrow> string \<times> bool \<Rightarrow> store \<Rightarrow> store" where
  "updateStockItem fl item st =
     (case fl MenuItemFindFirst of
        Some msg \<Rightarrow> st
      | None \<Rightarrow>
         (case find (\<lambda>row. i_posItemId row = Some (fst item)) (menuItems st) of
            None \<Rightarrow> st
          | Some menuItem \<Rightarrow>
             (case fl MenuItemUpdate of
                Some msg \<Rightarrow> st
              | None \<Rightarrow>
                 st\<lparr>menuItems :=
                    map (\<lambda>row. if i_id row = i_id menuItem
                           then row\<lparr>i_is86ed := \<not> snd item, i_isAvailable := snd item\<rparr>
                           else row) (menuItems st)\<rparr>)))"

definition handleStockEvent :: "faults \<Rightarrow> webhook_data \<Rightarrow> store \<Rightarrow> js_error option \<times> store" where
  "handleStockEvent fl d st =
     (case itemsOf d of
        None \<Rightarrow> (Some (TypeError ''Cannot read properties of undefined (reading 'length')''), st)
      | Some items \<Rightarrow> (None, foldl (\<lambda>s item. updateStockItem fl item s) st items))"

definition handleLocationEvent ::
  "faults \<Rightarrow> int \<Rightarrow> string \<Rightarrow> store \<Rightarrow> js_error option \<times> store" where
  "handleLocationEvent fl now locationGuid st =
     (case fl LocationFindFirst of
        Some msg \<Rightarrow> (Some (OtherError msg), st)
      | None \<Rightarrow>
         (case find (\<lambda>row. l_posLocationId row = Some locationGuid) (locations st) of
            None \<Rightarrow> (None, st)
          | Some location \<Rightarrow>
             (case fl AuditLogCreate of
                Some msg \<Rightarrow> (Some (OtherError msg), st)
              | None \<Rightarrow>
                 (None, st\<lparr>auditLog := auditLog st @
                    [\<lparr>a_action = ''SKYTAB_HOURS_CHANGED'', a_entityType = ''location'',
                      a_entityId = l_id location,
                      a_changes = HoursChanges locationGuid now\<rparr>]\<rparr>))))"

definition checkDuplicateEvent :: "faults \<Rightarrow> string \<Rightarrow> store \<Rightarrow> js_error + bool" where
  "checkDuplicateEvent fl eventId st =
     (case fl AuditLogFindFirst of
        Some msg \<Rightarrow> Inl (OtherError msg)
      | None \<Rightarrow>
         Inr (find (\<lambda>row. a_action row = ''SKYTAB_WEBHOOK'' \<and> a_entityId row = eventId)
                (auditLog st) \<noteq> None))"

text \<open>\<open>recordWebhookEvent\<close>; a rejected write is logged and dropped.\<close>

definition recordWebhookEvent ::
  "faults \<Rightarrow> int \<Rightarrow> string \<Rightarrow> string \<Rightarrow> string \<Rightarrow> string \<Rightarrow> string option \<Rightarrow> store \<Rightarrow> store" where
  "recordWebhookEvent fl now eventId eventType locationGuid status errMsg st =
     (case fl AuditLogCreate of
        Some msg \<Rightarrow> st
      | None \<Rightarrow>
         st\<lparr>auditLog := auditLog st @
            [\<lparr>a_action = ''SKYTAB_WEBHOOK'', a_entityType = ''webhook'', a_entityId = eventId,
              a_changes = WebhookChanges eventType locationGuid status errMsg now\<rparr>]\<rparr>)"

text \<open>The \<open>switch\<close> on the event type (lines 554 to 580).\<close>

definition routeEvent ::
  "faults \<Rightarrow> int \<Rightarrow> webhook_payload \<Rightarrow> store \<Rightarrow> js_error option \<times> store" where
  "routeEvent fl now payload st =
     (let eventType = p_eventType payload in
      if eventType = ''ticket.created'' \<or> eventType = ''ticket.updated''
           \<or> eventType = ''ticket.status_changed''
      then handleTicketEvent fl now (p_data payload) st
      else if eventType = ''ticket.cancelled''
      then handleTicketCancelled fl now (p_data payload) st
      else if eventType = ''menu.updated'' \<or> eventType = ''menu.item_availability_changed''
      then handleMenuEvent fl now (p_data payload) (p_locationGuid payload) st
      else if eventType = ''stock.updated''
      then handleStockEvent fl (p_data payload) st
      else if eventType = ''location.hours_changed''
      then handleLocationEvent fl now (p_locationGuid payload) st
      else (None, st))"

text \<open>\<open>processWebhook\<close>: the result \<open>{ success, message }\<close>, or the error it rethrows.\<close>

definition processWebhook ::
  "faults \<Rightarrow> int \<Rightarrow> webhook_payload \<Rightarrow> store \<Rightarrow> (js_error + bool \<times> string) \<times> store" where
  "processWebhook fl now payload st =
     (case checkDuplicateEvent fl (p_eventId payload) st of
        Inl error \<Rightarrow>
          (Inl error,
           recordWebhookEvent fl now (p_eventId payload) (p_eventType payload)
             (p_locationGuid payload) ''failed'' (Some (errorMessage error)) st)
      | Inr existingEvent \<Rightarrow>
          if existingEvent then (Inr (True, ''Event already processed''), st)
          else (case routeEvent fl now payload st of
                  (Some error, st1) \<Rightarrow>
                    (Inl error,
                     recordWebhookEvent fl now (p_eventId payload) (p_eventType payload)
                       (p_locationGuid payload) ''failed'' (Some (errorMessage error)) st1)
                | (None, st1) \<Rightarrow>
                    (Inr (True, ''Event '' @ p_eventType payload @ '' processed successfully''),
                     recordWebhookEvent fl now (p_eventId payload) (p_eventType payload)
                       (p_locationGuid payload) ''processed'' None st1)))"

subsection \<open>Signature verification\<close>

text \<open>
  \<open>Buffer.from(s, 'hex')\<close>: two hex digits make a byte, and decoding stops at the first
  pair that is not two hex digits (a last single character is dropped).
\<close>

definition hexValue :: "char \<Rightarrow> nat option" where
  "hexValue ch =
     (let n = (of_char ch :: nat) in
      if 48 \<le> n \<and> n \<le> 57 then Some (n - 48)
      else if 97 \<le> n \<and> n \<le> 102 then Some (n - 87)
      else if 65 \<le> n \<and> n \<le> 70 then Some (n - 55)
      else None)"

fun bufferFromHex :: "string \<Rightarrow> nat list" where
  "bufferFromHex (a # b # rest) =
     (case (hexValue a, hexValue b) of
        (Some x, Some y) \<Rightarrow> (16 * x + y) # bufferFromHex rest
      | _ \<Rightarrow> [])"
| "bufferFromHex s = []"

text \<open>
  The library calls of \<open>verifySignature\<close> and of the route: the hex digest of the
  HMAC-SHA256 of the payload under the secret (\<open>None\<close> when the call throws),
  \<open>crypto.timingSafeEqual\<close>, and \<open>JSON.stringify\<close>.
\<close>

record platform =
  hmacSha256Hex :: "string \<Rightarrow> string \<Rightarrow> string option"
  timingSafeEqual :: "nat list \<Rightarrow> nat list \<Rightarrow> js_error + bool"
  jsonStringify :: "webhook_payload \<Rightarrow> string"

definition verifySignature :: "platform \<Rightarrow> config \<Rightarrow> string \<Rightarrow> string \<Rightarrow> bool" where
  "verifySignature pf cfg payload signature =
     (case SKYTAB_WEBHOOK_SECRET cfg of
        None \<Rightarrow> True
      | Some webhookSecret \<Rightarrow>
          if webhookSecret = [] then True
          else (case hmacSha256Hex pf webhookSecret payload of
                  None \<Rightarrow> False
                | Some expectedSignature \<Rightarrow>
                   (let signatureBuffer = bufferFromHex signature;
                        expectedBuffer = bufferFromHex expectedSignature
                    in if length signatureBuffer \<noteq> length expectedBuffer then False
                       else (case timingSafeEqual pf signatureBuffer expectedBuffer of
                               Inl error \<Rightarrow> False
                             | Inr equal \<Rightarrow> equal))))"

section \<open>The routes (pos.routes.ts)\<close>

datatype response_body =
    ReceivedBody "string option"
  | ErrorBody string string
  | RetryBody string "(string \<times> bool \<times> string option) list"

record http_response =
  statusCode :: int
  body :: response_body

definition errorResponse :: "string \<Rightarrow> string \<Rightarrow> int \<Rightarrow> http_response" where
  "errorResponse cd msg status = \<lparr>statusCode = status, body = ErrorBody cd msg\<rparr>"

definition successResponse :: "response_body \<Rightarrow> http_response" where
  "successResponse b = \<lparr>statusCode = 200, body = b\<rparr>"

record webhook_request =
  signatureHeader :: "string option"
  requestBody :: webhook_payload

text \<open>
  Modelled from the spec: the schema of the webhook-event table (prisma/schema.prisma) is
  not among the sources. \<open>eventId\<close> is unique, so a second row for an event id is
  rejected, and \<open>retryCount\<close> starts at 0.
\<close>

definition createWebhookEvent :: "faults \<Rightarrow> webhook_payload \<Rightarrow> store \<Rightarrow> js_error + store" where
  "createWebhookEvent fl payload st =
     (case fl WebhookEventCreate of
        Some msg \<Rightarrow> Inl (OtherError msg)
      | None \<Rightarrow>
         if find (\<lambda>row. w_eventId row = p_eventId payload) (webhookEvents st) \<noteq> None
         then Inl (OtherError ''Unique constraint failed on the fields: (eventId)'')
         else Inr (st\<lparr>webhookEvents := webhookEvents st @
                [\<lparr>w_eventId = p_eventId payload, w_eventType = p_eventType payload,
                  w_locationGuid = p_locationGuid payload, w_status = ''pending'',
                  w_processedAt = None, w_errorMessage = None, w_retryCount = 0\<rparr>]\<rparr>))"

text \<open>
  The handler of \<open>POST /skytab/webhook\<close> up to its response: the response, the state, and
  the payload handed to \<open>setImmediate\<close> (if any). \<open>signatureOf\<close> is the header
  \<open>x-skytab-signature\<close>, or the empty string.
\<close>

definition signatureOf :: "webhook_request \<Rightarrow> string" where
  "signatureOf req = (case signatureHeader req of Some s \<Rightarrow> s | None \<Rightarrow> [])"

definition webhookRoute ::
  "platform \<Rightarrow> config \<Rightarrow> faults \<Rightarrow> webhook_request \<Rightarrow> store
     \<Rightarrow> http_response \<times> store \<times> webhook_payload option" where
  "webhookRoute pf cfg fl req st =
     (let rawBody = jsonStringify pf (requestBody req);
          signature = signatureOf req
      in if \<not> verifySignature pf cfg rawBody signature
         then (errorResponse ''INVALID_SIGNATURE'' ''Invalid webhook signature'' 401, st, None)
         else (case createWebhookEvent fl (requestBody req) st of
                 Inl error \<Rightarrow>
                   (\<lparr>statusCode = 200, body = ReceivedBody (Some ''Processing failed'')\<rparr>,
                    st, None)
               | Inr st1 \<Rightarrow>
                   (\<lparr>statusCode = 200, body = ReceivedBody None\<rparr>, st1,
                    Some (requestBody req))))"

text \<open>
  The callback given to \<open>setImmediate\<close> (lines 161 to 184). An update that rejects inside
  the \<open>try\<close> is caught as a failure of the processing; one that rejects inside the
  \<open>catch\<close> leaves the row as it is.
\<close>

definition updateWebhookEvent ::
  "faults \<Rightarrow> string \<Rightarrow> (webhook_event_row \<Rightarrow> webhook_event_row) \<Rightarrow> store \<Rightarrow> js_error + store" where
  "updateWebhookEvent fl eventId change st =
     (case fl WebhookEventUpdate of
        Some msg \<Rightarrow> Inl (OtherError msg)
      | None \<Rightarrow>
         if find (\<lambda>row. w_eventId row = eventId) (webhookEvents st) = None
         then Inl (OtherError ''Record to update not found'')
         else Inr (st\<lparr>webhookEvents :=
                map (\<lambda>row. if w_eventId row = eventId then change row else row)
                  (webhookEvents st)\<rparr>))"

definition markFailed :: "faults \<Rightarrow> string \<Rightarrow> js_error \<Rightarrow> store \<Rightarrow> store" where
  "markFailed fl eventId error st =
     (case updateWebhookEvent fl eventId
             (\<lambda>row. row\<lparr>w_status := ''failed'', w_errorMessage := Some (errorMessage error),
                       w_retryCount := w_retryCount row + 1\<rparr>) st of
        Inl e \<Rightarrow> st
      | Inr st1 \<Rightarrow> st1)"

definition processInBackground :: "faults \<Rightarrow> int \<Rightarrow> webhook_payload \<Rightarrow> store \<Rightarrow> store" where
  "processInBackground fl now payload st =
     (case processWebhook fl now payload st of
        (Inl error, st1) \<Rightarrow> markFailed fl (p_eventId payload) error st1
      | (Inr result, st1) \<Rightarrow>
          (case updateWebhookEvent fl (p_eventId payload)
                  (\<lambda>row. row\<lparr>w_status := ''processed'', w_processedAt := Some now\<rparr>) st1 of
             Inl error \<Rightarrow> markFailed fl (p_eventId payload) error st1
           | Inr st2 \<Rightarrow> st2))"

text \<open>One delivery: the route, then the deferred processing of what it handed over.\<close>

definition deliverWebhook ::
  "platform \<Rightarrow> config \<Rightarrow> faults \<Rightarrow> int \<Rightarrow> webhook_request \<Rightarrow> store \<Rightarrow> http_response \<times> store" where
  "deliverWebhook pf cfg fl now req st =
     (case webhookRoute pf cfg fl req st of
        (response, st1, None) \<Rightarrow> (response, st1)
      | (response, st1, Some payload) \<Rightarrow> (response, processInBackground fl now payload st1))"

subsection \<open>The retry sweep of the failed-request queue\<close>

text \<open>
  The query of \<open>POST /skytab/retry-failed\<close> (lines 330 to 340): rows that are pending or
  retrying, with \<open>retryCount < maxRetries\<close>, due now or with no due time; at most ten.
\<close>

definition sweepSelects :: "int \<Rightarrow> failed_request_row \<Rightarrow> bool" where
  "sweepSelects now row =
     ((f_status row = ''pending'' \<or> f_status row = ''retrying'') \<and>
      f_retryCount row < f_maxRetries row \<and>
      (case f_nextRetryAt row of None \<Rightarrow> True | Some t \<Rightarrow> t \<le> now))"

definition findFailedRequests :: "int \<Rightarrow> failed_request_row list \<Rightarrow> failed_request_row list" where
  "findFailedRequests now rows = take 10 (filter (sweepSelects now) rows)"

text \<open>
  \<open>Math.min(1000 * Math.pow(2, retryCount + 1), 30 * 60 * 1000)\<close>, as added to the clock
  and stored in a \<open>Date\<close>: for a negative exponent the product is a fraction, which the
  \<open>Date\<close> truncates.
\<close>

definition nextRetryDelay :: "int \<Rightarrow> int" where
  "nextRetryDelay retryCount =
     (if 0 \<le> retryCount + 1 then min (1000 * 2 ^ nat (retryCount + 1)) (30 * 60 * 1000)
      else 1000 div 2 ^ nat (- (retryCount + 1)))"

definition updateFailedRequest ::
  "string \<Rightarrow> (failed_request_row \<Rightarrow> failed_request_row) \<Rightarrow> failed_request_row list
     \<Rightarrow> failed_request_row list" where
  "updateFailedRequest rid change rows =
     map (\<lambda>row. if f_id row = rid then change row else row) rows"

text \<open>
  The body of the loop over the selected rows (lines 345 to 390), when the table can be
  written. \<open>failedRequest\<close> is the loop variable, the row as the query returned it;
  \<open>sendOrderToPOS\<close> gives the message of the error that \<open>posService.sendOrderToPOS\<close>
  throws for an order id, or \<open>None\<close> when it returns. The row is completed, or its count
  is incremented and it is set back to pending, or abandoned once
  \<open>retryCount + 1 >= maxRetries\<close>.
\<close>

definition retryOne ::
  "(string option \<Rightarrow> string option) \<Rightarrow> int \<Rightarrow> failed_request_row \<Rightarrow> failed_request_row list
     \<Rightarrow> (string \<times> bool \<times> string option) \<times> failed_request_row list" where
  "retryOne sendOrderToPOS now failedRequest rows =
     (let rows1 = updateFailedRequest (f_id failedRequest) (\<lambda>row. row\<lparr>f_status := ''retrying''\<rparr>) rows;
          thrown = (if f_requestType failedRequest = ''order_submit''
                    then sendOrderToPOS (f_orderId failedRequest) else None)
      in case thrown of
           None \<Rightarrow>
             ((f_id failedRequest, True, None),
              updateFailedRequest (f_id failedRequest)
                (\<lambda>row. row\<lparr>f_status := ''completed'', f_completedAt := Some now\<rparr>) rows1)
         | Some msg \<Rightarrow>
             ((f_id failedRequest, False, Some msg),
              updateFailedRequest (f_id failedRequest)
                (\<lambda>row. row\<lparr>f_status :=
                              (if f_retryCount failedRequest + 1 \<ge> f_maxRetries failedRequest
                               then ''abandoned'' else ''pending''),
                            f_retryCount := f_retryCount row + 1,
                            f_nextRetryAt := Some (now + nextRetryDelay (f_retryCount failedRequest)),
                            f_errorMessage := Some msg\<rparr>) rows1))"

text \<open>
  The loop. When the table cannot be written, the first update of a row rejects, the
  update in its \<open>catch\<close> block rejects too, and the outer \<open>catch\<close> answers 500.
\<close>

fun retryAll ::
  "faults \<Rightarrow> (string option \<Rightarrow> string option) \<Rightarrow> int \<Rightarrow> failed_request_row list
     \<Rightarrow> (string \<times> bool \<times> string option) list \<Rightarrow> failed_request_row list
     \<Rightarrow> http_response \<times> failed_request_row list" where
  "retryAll fl sendOrderToPOS now [] results rows =
     (successResponse
        (RetryBody (''Processed '' @ showNat (length results) @ '' failed requests'') results),
      rows)"
| "retryAll fl sendOrderToPOS now (failedRequest # rest) results rows =
     (case fl FailedRequestUpdate of
        Some msg \<Rightarrow>
          (errorResponse ''POS_RETRY_ERROR''
             (if msg = [] then ''Failed to retry failed requests'' else msg) 500, rows)
      | None \<Rightarrow>
          (case retryOne sendOrderToPOS now failedRequest rows of
             (result, rows1) \<Rightarrow>
               retryAll fl sendOrderToPOS now rest (results @ [result]) rows1))"

definition retryFailedRoute ::
  "faults \<Rightarrow> (string option \<Rightarrow> string option) \<Rightarrow> int \<Rightarrow> failed_request_row list
     \<Rightarrow> http_response \<times> failed_request_row list" where
  "retryFailedRoute fl sendOrderToPOS now rows =
     (case fl FailedRequestFindMany of
        Some msg \<Rightarrow>
          (errorResponse ''POS_RETRY_ERROR''
             (if msg = [] then ''Failed to retry failed requests'' else msg) 500, rows)
      | None \<Rightarrow> retryAll fl sendOrderToPOS now (findFailedRequests now rows) [] rows)"

subsection \<open>Fixtures for the statements about the webhook and the queue\<close>

text \<open>An event is recorded when the audit log holds a webhook row for its id.\<close>

definition recorded :: "string \<Rightarrow> store \<Rightarrow> bool" where
  "recorded eventId st =
     (find (\<lambda>row. a_action row = ''SKYTAB_WEBHOOK'' \<and> a_entityId row = eventId)
        (auditLog st) \<noteq> None)"

definition noFaults :: faults where
  "noFaults op = None"

definition databaseError :: faults where
  "databaseError op = (if op = OrderFindFirst then Some ''Database error'' else None)"

definition pendingOrder :: order_row where
  "pendingOrder =
     \<lparr>o_id = ''order-123'', o_posOrderId = None, o_status = ''pending'',
      o_posSyncStatus = ''pending'', o_posSyncedAt = None, o_estimatedReadyAt = None,
      o_cancelledAt = None\<rparr>"

definition oneOrder :: store where
  "oneOrder =
     \<lparr>orders = [pendingOrder], orderStatusHistory = [], locations = [], menus = [],
      menuItems = [], auditLog = [], webhookEvents = [], failedRequests = []\<rparr>"

definition preparingEvent :: webhook_payload where
  "preparingEvent =
     \<lparr>p_eventType = ''ticket.status_changed'', p_eventId = ''event-123'',
      p_locationGuid = ''location-123'',
      p_data = TicketData ''ticket-123'' ''order-123'' ''PREPARING'' None None\<rparr>"

definition readyEvent :: webhook_payload where
  "readyEvent =
     \<lparr>p_eventType = ''ticket.status_changed'', p_eventId = ''event-123'',
      p_locationGuid = ''location-123'',
      p_data = TicketData ''ticket-123'' ''order-123'' ''READY'' None None\<rparr>"

text \<open>
  A stand-in for the library: the digest is the same 32 bytes for every payload,
  \<open>timingSafeEqual\<close> throws on buffers of different length and compares otherwise, and the
  body is rendered as its event id.
\<close>

definition fixedDigest :: string where
  "fixedDigest = concat (replicate 32 ''a1'')"

definition testPlatform :: platform where
  "testPlatform =
     \<lparr>hmacSha256Hex = (\<lambda>secret payload. Some fixedDigest),
      timingSafeEqual = (\<lambda>a b. if length a \<noteq> length b
                                then Inl (OtherError ''Input buffers must have the same byte length'')
                                else Inr (a = b)),
      jsonStringify = p_eventId\<rparr>"

definition shortSignature :: webhook_request where
  "shortSignature = \<lparr>signatureHeader = Some ''abc123'', requestBody = preparingEvent\<rparr>"

definition goodSignature :: webhook_request where
  "goodSignature = \<lparr>signatureHeader = Some fixedDigest, requestBody = preparingEvent\<rparr>"

definition queuedRow :: failed_request_row where
  "queuedRow =
     \<lparr>f_id = ''fr-1'', f_requestType = ''order_submit'', f_orderId = Some ''order-123'',
      f_status = ''pending'', f_retryCount = 4, f_maxRetries = 5, f_nextRetryAt = Some 60000,
      f_errorMessage = Some ''Service unavailable'', f_completedAt = None\<rparr>"

definition abandonedRow :: failed_request_row where
  "abandonedRow =
     \<lparr>f_id = ''fr-2'', f_requestType = ''order_submit'', f_orderId = Some ''order-456'',
      f_status = ''abandoned'', f_retryCount = 5, f_maxRetries = 5, f_nextRetryAt = Some 0,
      f_errorMessage = Some ''Service unavailable'', f_completedAt = None\<rparr>"

definition posDown :: "string option \<Rightarrow> string option" where
  "posDown orderId = Some ''Service unavailable''"

section \<open>Properties of the POS client\<close>

subsection \<open>What one pass of the loop leaves untouched\<close>

lemma checkRateLimit_fetchCalls: "fetchCalls (checkRateLimit now q c) = fetchCalls c"
  by (simp add: checkRateLimit_def sleep_def Let_def split: list.splits)

lemma checkRateLimit_authCalls: "authCalls (checkRateLimit now q c) = authCalls c"
  by (simp add: checkRateLimit_def sleep_def Let_def split: list.splits)

lemma checkRateLimit_other_sleeps:
  "filter (\<lambda>p. fst p \<noteq> RateLimitWait) (sleeps (checkRateLimit now q c)) =
   filter (\<lambda>p. fst p \<noteq> RateLimitWait) (sleeps c)"
  by (simp add: checkRateLimit_def sleep_def Let_def split: list.splits)

lemma getAccessToken_succeeds:
  assumes "credentialsConfigured cfg" and "ex = AuthOk tok n"
  shows "\<exists>t c'. getAccessToken cfg now ex g c = (Inr t, c') \<and> fetchCalls c' = fetchCalls c
           \<and> sleeps c' = sleeps c"
  using assms
  by (auto simp: getAccessToken_def exchangeCredentials_def credentialsConfigured_def Let_def
      split: option.splits)

lemma getAccessToken_sleeps: "sleeps (snd (getAccessToken cfg now ex g c)) = sleeps c"
  by (auto simp: getAccessToken_def exchangeCredentials_def Let_def
      split: option.splits auth_reply.splits)

lemma apiErrorOf_code:
  assumes "Option.bind err code = Some cd" and "cd \<noteq> []"
  shows "\<exists>m d. apiErrorOf status err = SkyTabApiError m cd status d"
  using assms by (simp add: apiErrorOf_def)

subsection \<open>A vendor that always answers 500\<close>

lemma requestAttempt_500:
  assumes "credentialsConfigured cfg" and "exchange io = AuthOk tok n"
    and "reply io = Response 500 h b"
  shows "\<exists>c' le'. requestAttempt cfg t R bd io a le c = (Continue le', c')
         \<and> fetchCalls c' = fetchCalls c + 1
         \<and> (\<not> int a < R \<longrightarrow> le' \<noteq> None \<and>
               (\<forall>err v. b = Some (JsonValue err v) \<longrightarrow> le' = Some (apiErrorOf 500 err)))"
proof -
  obtain tk c2 where g: "getAccessToken cfg (tokenNow io) (exchange io) (grantedNow io)
        (checkRateLimit (rateNow io) (queuedNow io) c) = (Inr tk, c2)"
    and f: "fetchCalls c2 = fetchCalls (checkRateLimit (rateNow io) (queuedNow io) c)"
    using getAccessToken_succeeds[OF assms(1,2)] by blast
  show ?thesis
  proof (cases b)
    case None
    then show ?thesis
      using assms(3) g f
      by (simp add: requestAttempt_def Let_def catchBlock_def checkRateLimit_fetchCalls)
  next
    case (Some responseData)
    show ?thesis
    proof (cases responseData)
      case JsonNull
      then show ?thesis
        using assms(3) g f Some
        by (simp add: requestAttempt_def Let_def responseOk_def notOkResponse_def
            catchBlock_def sleep_def checkRateLimit_fetchCalls isRetryableError_def)
    next
      case (JsonValue err v)
      then show ?thesis
        using assms(3) g f Some
        by (simp add: requestAttempt_def Let_def responseOk_def notOkResponse_def
            catchBlock_def apiErrorOf_def sleep_def checkRateLimit_fetchCalls
            isRetryableError_def)
    qed
  qed
qed

lemma requestLoop_500:
  assumes cc: "credentialsConfigured cfg"
    and ex: "\<forall>k. k \<le> N \<longrightarrow> (\<exists>tok n. exchange (io k) = AuthOk tok n)"
    and rp: "\<forall>k. k \<le> N \<longrightarrow> reply (io k) = Response 500 (h k) (b k)"
  shows "a \<le> N \<Longrightarrow>
    \<exists>c' e. requestLoop cfg t (int N) bd io a le c = (Inl e, c')
        \<and> fetchCalls c' = fetchCalls c + (N + 1 - a)
        \<and> (\<forall>err v. b N = Some (JsonValue err v) \<longrightarrow> e = apiErrorOf 500 err)"
proof (induction "N - a" arbitrary: a le c)
  case 0
  then have aN: "a = N" by simp
  obtain tok n where e: "exchange (io a) = AuthOk tok n" using ex aN by blast
  have r: "reply (io a) = Response 500 (h a) (b a)"
    using rp aN by simp
  obtain c1 le' where s: "requestAttempt cfg t (int N) bd (io a) a le c = (Continue le', c1)"
    and f: "fetchCalls c1 = fetchCalls c + 1"
    and l: "le' \<noteq> None"
           "\<forall>err v. b a = Some (JsonValue err v) \<longrightarrow> le' = Some (apiErrorOf 500 err)"
    using requestAttempt_500[OF cc e r, of t "int N" bd a le c] aN by auto
  obtain e' where e': "le' = Some e'" using l(1) by auto
  have "requestLoop cfg t (int N) bd io a le c = (Inl e', c1)"
    using s aN e'
    by (subst requestLoop.simps) (simp add: requestLoop.simps[of _ _ _ _ _ "Suc N"])
  then show ?case using f aN l(2) e' by auto
next
  case (Suc d)
  then have aN: "a < N" by simp
  obtain tok n where e: "exchange (io a) = AuthOk tok n"
    using ex[rule_format, of a] aN by auto
  have r: "reply (io a) = Response 500 (h a) (b a)"
    using rp aN by simp
  obtain c1 le' where s: "requestAttempt cfg t (int N) bd (io a) a le c = (Continue le', c1)"
    and f: "fetchCalls c1 = fetchCalls c + 1"
    using requestAttempt_500[OF cc e r, of t "int N" bd a le c] by auto
  have "d = N - Suc a" "Suc a \<le> N" using Suc.hyps(2) aN by simp_all
  from Suc.hyps(1)[OF this(1) this(2), of le' c1]
  obtain c' e' where l: "requestLoop cfg t (int N) bd io (Suc a) le' c1 = (Inl e', c')"
     and f': "fetchCalls c' = fetchCalls c1 + (N + 1 - Suc a)"
     and v: "\<forall>err v. b N = Some (JsonValue err v) \<longrightarrow> e' = apiErrorOf 500 err" by auto
  have "requestLoop cfg t (int N) bd io a le c = (Inl e', c')"
    using s l aN by (subst requestLoop.simps) simp
  then show ?case using f f' aN v by auto
qed

text \<open>
  The retry ceiling. Let the retry limit be non-negative, let the credentials be
  configured and every credential exchange succeed, and let the vendor answer every
  attempt with status 500. Then \<open>request\<close> calls the vendor exactly \<open>1 + maxRetries\<close>
  times and throws. When the last answer has a JSON body, what is thrown is the
  \<open>SkyTabApiError\<close> built from it: its status is 500 and its code is the vendor's error
  code.
\<close>

lemma request_500_ceiling:
  assumes "0 \<le> maxRetriesOf opts"
    and "credentialsConfigured cfg"
    and "\<forall>k. k \<le> nat (maxRetriesOf opts) \<longrightarrow> (\<exists>tok n. exchange (io k) = AuthOk tok n)"
    and "\<forall>k. k \<le> nat (maxRetriesOf opts) \<longrightarrow> reply (io k) = Response 500 (h k) (b k)"
  shows "fetchCalls (snd (request cfg opts io c)) = fetchCalls c + nat (1 + maxRetriesOf opts) \<and>
         (\<exists>e. fst (request cfg opts io c) = Inl e) \<and>
         (\<forall>err v. b (nat (maxRetriesOf opts)) = Some (JsonValue err v) \<longrightarrow>
            fst (request cfg opts io c) = Inl (apiErrorOf 500 err) \<and>
            (\<forall>cd. Option.bind err code = Some cd \<and> cd \<noteq> [] \<longrightarrow>
               (\<exists>m d. fst (request cfg opts io c) = Inl (SkyTabApiError m cd 500 d))))"
proof -
  define N where "N = nat (maxRetriesOf opts)"
  have R: "maxRetriesOf opts = int N" using assms(1) by (simp add: N_def)
  obtain c' e where l: "requestLoop cfg (timeoutOf opts) (int N) (baseRetryDelayOf opts) io 0 None c
        = (Inl e, c')" and f: "fetchCalls c' = fetchCalls c + (N + 1 - 0)"
    and v: "\<forall>err v. b N = Some (JsonValue err v) \<longrightarrow> e = apiErrorOf 500 err"
    using requestLoop_500[OF assms(2), of N io h b 0 "timeoutOf opts" "baseRetryDelayOf opts" None c]
      assms(3,4) by (auto simp: N_def)
  have 1: "fst (request cfg opts io c) = Inl e"
    using l by (simp add: request_def R)
  have 2: "fetchCalls (snd (request cfg opts io c)) = fetchCalls c + nat (1 + maxRetriesOf opts)"
    using l f by (simp add: request_def R)
  have 3: "fst (request cfg opts io c) = Inl (apiErrorOf 500 err) \<and>
      (\<forall>cd. Option.bind err code = Some cd \<and> cd \<noteq> [] \<longrightarrow>
         (\<exists>m d. fst (request cfg opts io c) = Inl (SkyTabApiError m cd 500 d)))"
    if "b N = Some (JsonValue err v)" for err v
  proof -
    have a: "fst (request cfg opts io c) = Inl (apiErrorOf 500 err)"
      using 1 v that by simp
    have "\<exists>m d. fst (request cfg opts io c) = Inl (SkyTabApiError m cd 500 d)"
      if "Option.bind err code = Some cd \<and> cd \<noteq> []" for cd
      using apiErrorOf_code[of err cd 500] that a by auto
    then show ?thesis using a by blast
  qed
  show ?thesis using 1 2 3 unfolding N_def by blast
qed

lemma request_500_json_example:
  "fst (request testConfig noOptions (replying always500) newClient) =
     Inl (SkyTabApiError ''Server error'' ''INTERNAL_ERROR'' 500 None) \<and>
   fetchCalls (snd (request testConfig noOptions (replying always500) newClient)) = 4"
proof -
  have m: "maxRetriesOf noOptions = 3"
    by (simp add: maxRetriesOf_def noOptions_def DEFAULT_RETRIES_def)
  have cc: "credentialsConfigured testConfig"
    by (simp add: credentialsConfigured_def testConfig_def orElse_def)
  have ex: "\<forall>k. k \<le> nat (maxRetriesOf noOptions) \<longrightarrow>
      (\<exists>tok n. exchange (replying always500 k) = AuthOk tok n)"
    by (simp add: replying_def)
  have rp: "\<forall>k. k \<le> nat (maxRetriesOf noOptions) \<longrightarrow>
      reply (replying always500 k) =
        Response 500 None (Some (errorBody ''INTERNAL_ERROR'' ''Server error'' ()))"
    by (simp add: replying_def always500_def)
  have "0 \<le> maxRetriesOf noOptions" using m by simp
  note inst = request_500_ceiling[where io = "replying always500" and c = newClient
      and h = "\<lambda>k. None"
      and b = "\<lambda>k. Some (errorBody ''INTERNAL_ERROR'' ''Server error'' ())",
      OF this cc ex rp]
  have last: "Some (errorBody ''INTERNAL_ERROR'' ''Server error'' ()) =
      Some (JsonValue (Some \<lparr>code = Some ''INTERNAL_ERROR'', message = Some ''Server error'',
         details = None\<rparr>) ())"
    by (simp add: errorBody_def)
  show ?thesis
    using inst[THEN conjunct1] inst[THEN conjunct2, THEN conjunct2, rule_format, OF last]
    by (simp add: m apiErrorOf_def newClient_def)
qed

text \<open>
  Claim C2 (retry ceiling), at a vendor that answers every attempt with status 500 and an
  empty body. The body is parsed before the status is looked at, and the \<open>SyntaxError\<close>
  of the parse is neither a \<open>TypeError\<close> nor a \<open>SkyTabApiError\<close>. With the default three
  retries the vendor is called four times, as the claim says, but with no wait in between,
  and what is thrown in the end is the \<open>SyntaxError\<close> of the last parse: not a
  \<open>SkyTabApiError\<close>, and it carries neither a code nor the status 500.
\<close>

theorem request_500_unparsable_untyped:
  "fetchCalls (snd (request testConfig noOptions (replying always500Empty) newClient)) = 4 \<and>
   sleeps (snd (request testConfig noOptions (replying always500Empty) newClient)) = [] \<and>
   fst (request testConfig noOptions (replying always500Empty) newClient) =
     Inl (OtherError ''Unexpected end of JSON input'')"
  by code_simp

subsection \<open>A status that is not retried\<close>

text \<open>
  A status between 400 and 499 other than 429, answered with a JSON body on the first
  attempt: \<open>request\<close> calls the vendor exactly once, throws the \<open>SkyTabApiError\<close> built
  from that answer, and adds no wait other than those of the rate limiter.
\<close>

lemma request_json_4xx_not_retried:
  assumes "0 \<le> maxRetriesOf opts"
    and "credentialsConfigured cfg"
    and "exchange (io 0) = AuthOk tok n"
    and "reply (io 0) = Response status h (Some (JsonValue err v))"
    and "400 \<le> status" and "status \<le> 499" and "status \<noteq> 429"
  shows "fst (request cfg opts io c) = Inl (apiErrorOf status err) \<and>
         fetchCalls (snd (request cfg opts io c)) = fetchCalls c + 1 \<and>
         filter (\<lambda>p. fst p \<noteq> RateLimitWait) (sleeps (snd (request cfg opts io c))) =
           filter (\<lambda>p. fst p \<noteq> RateLimitWait) (sleeps c)"
proof -
  let ?c1 = "checkRateLimit (rateNow (io 0)) (queuedNow (io 0)) c"
  obtain tk c2 where g: "getAccessToken cfg (tokenNow (io 0)) (exchange (io 0)) (grantedNow (io 0))
        ?c1 = (Inr tk, c2)"
    and f: "fetchCalls c2 = fetchCalls ?c1" and sl: "sleeps c2 = sleeps ?c1"
    using getAccessToken_succeeds[OF assms(2,3)] by blast
  have nr: "\<not> isRetryableError status None" "\<not> responseOk status"
    using assms(5-7) by (simp_all add: isRetryableError_def responseOk_def)
  have s: "requestAttempt cfg (timeoutOf opts) (maxRetriesOf opts) (baseRetryDelayOf opts) (io 0)
      0 None c = (Throw (apiErrorOf status err), c2\<lparr>fetchCalls := fetchCalls c2 + 1\<rparr>)"
    using assms(4,7) g nr
    by (simp add: requestAttempt_def Let_def notOkResponse_def catchBlock_def apiErrorOf_def)
  have r: "request cfg opts io c = (Inl (apiErrorOf status err), c2\<lparr>fetchCalls := fetchCalls c2 + 1\<rparr>)"
    using s assms(1) by (simp add: request_def requestLoop.simps[of _ _ _ _ _ 0])
  show ?thesis
    using r f sl by (simp add: checkRateLimit_fetchCalls checkRateLimit_other_sleeps)
qed

lemma request_json_400_once:
  "fst (request testConfig noOptions (replying badRequest) newClient) =
     Inl (SkyTabApiError ''Bad request'' ''INVALID_REQUEST'' 400 None) \<and>
   fetchCalls (snd (request testConfig noOptions (replying badRequest) newClient)) = 1 \<and>
   sleeps (snd (request testConfig noOptions (replying badRequest) newClient)) = []"
  by code_simp

text \<open>
  Claim C8 (no retry on a terminal 4xx), at a 400 answer whose body is empty. The body is
  parsed before the status is looked at; the \<open>SyntaxError\<close> of the parse is neither a
  \<open>TypeError\<close> nor a \<open>SkyTabApiError\<close>, so the \<open>catch\<close> block lets the loop go on. With the
  default three retries the vendor is called four times, with no wait in between, and the
  call ends with the \<open>SyntaxError\<close> of the last parse, not with a \<open>SkyTabApiError\<close>.
\<close>

theorem request_retries_unparsable_400:
  "fetchCalls (snd (request testConfig noOptions (replying emptyBadRequest) newClient)) = 4 \<and>
   sleeps (snd (request testConfig noOptions (replying emptyBadRequest) newClient)) = [] \<and>
   fst (request testConfig noOptions (replying emptyBadRequest) newClient) =
     Inl (OtherError ''Unexpected end of JSON input'')"
  by code_simp

subsection \<open>The Retry-After header\<close>

text \<open>
  The branch that reads \<open>Retry-After\<close> comes after the branch that retries every retryable
  status, 429 included, while attempts remain; its own test asks for remaining attempts
  too. So no pass of the loop ever waits as the header asks.
\<close>

lemma notOkResponse_never_retry_after:
  "filter (\<lambda>p. fst p = RetryAfterWait)
     (sleeps (snd (notOkResponse t R b a le status ra bd c))) =
   filter (\<lambda>p. fst p = RetryAfterWait) (sleeps c)"
  by (simp add: notOkResponse_def catchBlock_def sleep_def isRetryableError_def Let_def
      split: json.splits js_error.splits)

lemma catchBlock_never_retry_after:
  "filter (\<lambda>p. fst p = RetryAfterWait) (sleeps (snd (catchBlock t R b a e c))) =
   filter (\<lambda>p. fst p = RetryAfterWait) (sleeps c)"
  by (simp add: catchBlock_def sleep_def Let_def split: js_error.splits)

lemma checkRateLimit_never_retry_after:
  "filter (\<lambda>p. fst p = RetryAfterWait) (sleeps (checkRateLimit now q c)) =
   filter (\<lambda>p. fst p = RetryAfterWait) (sleeps c)"
  by (simp add: checkRateLimit_def sleep_def Let_def split: list.splits)

lemma requestAttempt_never_retry_after:
  "filter (\<lambda>p. fst p = RetryAfterWait)
     (sleeps (snd (requestAttempt cfg t R b io a le c))) =
   filter (\<lambda>p. fst p = RetryAfterWait) (sleeps c)"
proof -
  let ?c1 = "checkRateLimit (rateNow io) (queuedNow io) c"
  obtain r c2 where g: "getAccessToken cfg (tokenNow io) (exchange io) (grantedNow io) ?c1 =
      (r, c2)" by (cases "getAccessToken cfg (tokenNow io) (exchange io) (grantedNow io) ?c1") auto
  have s2: "sleeps c2 = sleeps ?c1"
    using getAccessToken_sleeps[of cfg "tokenNow io" "exchange io" "grantedNow io" ?c1] g
    by simp
  show ?thesis
    using g s2
    by (auto simp: requestAttempt_def Let_def catchBlock_never_retry_after
        notOkResponse_never_retry_after checkRateLimit_never_retry_after
        split: sum.splits api_reply.splits option.splits)
qed

lemma requestLoop_never_retry_after:
  "filter (\<lambda>p. fst p = RetryAfterWait)
     (sleeps (snd (requestLoop cfg t R b io a le c))) =
   filter (\<lambda>p. fst p = RetryAfterWait) (sleeps c)"
proof (induction cfg t R b io a le c rule: requestLoop.induct)
  case (1 cfg t R b io a le c)
  show ?case
  proof (cases "int a \<le> R")
    case False
    then show ?thesis
      by (subst requestLoop.simps) (simp split: option.splits)
  next
    case True
    obtain st c' where s: "requestAttempt cfg t R b (io a) a le c = (st, c')"
      by (cases "requestAttempt cfg t R b (io a) a le c") auto
    have keep: "filter (\<lambda>p. fst p = RetryAfterWait) (sleeps c') =
        filter (\<lambda>p. fst p = RetryAfterWait) (sleeps c)"
      using requestAttempt_never_retry_after[of cfg t R b "io a" a le c] s by simp
    show ?thesis
    proof (cases st)
      case (Return v)
      then show ?thesis using True s keep by (subst requestLoop.simps) simp
    next
      case (Throw e)
      then show ?thesis using True s keep by (subst requestLoop.simps) simp
    next
      case (Continue le')
      have "filter (\<lambda>p. fst p = RetryAfterWait)
          (sleeps (snd (requestLoop cfg t R b io (Suc a) le' c'))) =
        filter (\<lambda>p. fst p = RetryAfterWait) (sleeps c')"
        using "1.IH"[OF True s[symmetric] Continue] .
      then show ?thesis using True s keep Continue by (subst requestLoop.simps) simp
    qed
  qed
qed

text \<open>No call of \<open>request\<close> ever waits as a \<open>Retry-After\<close> header asks.\<close>

lemma request_never_waits_retry_after:
  "filter (\<lambda>p. fst p = RetryAfterWait) (sleeps (snd (request cfg opts io c))) =
   filter (\<lambda>p. fst p = RetryAfterWait) (sleeps c)"
  unfolding request_def by (rule requestLoop_never_retry_after)

text \<open>
  Claim C1 (a 429 with Retry-After), at the input of the repository's own test of the
  rate-limit retry: the first answer is 429 with \<open>Retry-After: 1\<close>, the retry base delay
  is 10 ms and three retries remain. The client retries after the 10 ms of the
  exponential back-off: the one wait it makes is 10 ms, not the 1000 ms of the header.
\<close>

theorem retry_after_header_ignored:
  "sleeps (snd (request testConfig shortDelay (replying rateLimitedOnce) newClient)) =
     [(BackoffWait, 10)] \<and>
   fetchCalls (snd (request testConfig shortDelay (replying rateLimitedOnce) newClient)) = 2 \<and>
   fst (request testConfig shortDelay (replying rateLimitedOnce) newClient) =
     Inr (JsonValue None ())"
  by code_simp

subsection \<open>Token caching\<close>

lemma getAccessToken_hit:
  assumes "cacheValid c now"
  shows "\<exists>tok. accessToken c = Some tok \<and> getAccessToken cfg now ex g c = (Inr tok, c)"
  using assms by (auto simp: cacheValid_def getAccessToken_def split: option.splits)

lemma cacheValid_iff:
  "cacheValid c now =
     (\<exists>tok e. accessToken c = Some tok \<and> tok \<noteq> [] \<and> tokenExpiry c = Some (DateAt e) \<and>
        validTime (now + bufferMs) \<and> now + bufferMs < e)"
proof (cases "tokenExpiry c")
  case None
  then show ?thesis by (simp add: cacheValid_def split: option.splits)
next
  case (Some expiry)
  then show ?thesis
    by (cases expiry; cases "accessToken c") (auto simp: cacheValid_def newDate_def)
qed

lemma getAccessToken_miss:
  assumes "\<not> cacheValid c now"
  shows "getAccessToken cfg now ex g c = exchangeCredentials cfg ex g c"
  using assms by (auto simp: cacheValid_def getAccessToken_def split: option.splits)

lemma exchangeCredentials_calls:
  assumes "credentialsConfigured cfg"
  shows "authCalls (snd (exchangeCredentials cfg ex g c)) = authCalls c + 1"
  using assms
  by (auto simp: exchangeCredentials_def credentialsConfigured_def Let_def split: auth_reply.splits)

lemma exchangeCredentials_ok:
  assumes "credentialsConfigured cfg"
  shows "exchangeCredentials cfg (AuthOk tok n) g c =
     (Inr tok, c\<lparr>accessToken := Some tok, tokenExpiry := Some (newDate (g + n * 1000)),
                 authCalls := authCalls c + 1\<rparr>)"
  using assms
  by (simp add: exchangeCredentials_def credentialsConfigured_def Let_def)

lemma exchangeCredentials_unconfigured:
  assumes "\<not> credentialsConfigured cfg"
  shows "exchangeCredentials cfg ex g c =
     (Inl (OtherError ''SkyTab API credentials not configured''), c)"
  using assms
  by (simp add: exchangeCredentials_def credentialsConfigured_def Let_def)

lemma getAccessTokens_all_hits:
  assumes "accessToken c = Some tok" and "tok \<noteq> []" and "tokenExpiry c = Some expiry"
    and "\<forall>call \<in> set calls. dateBefore (newDate (fst call + bufferMs)) expiry"
  shows "getAccessTokens cfg calls c = (replicate (length calls) (Inr tok), c)"
  using assms(4)
proof (induction calls)
  case Nil
  show ?case by simp
next
  case (Cons call calls)
  obtain now ex g where call: "call = (now, ex, g)" by (cases call) auto
  have "dateBefore (newDate (now + bufferMs)) expiry" using Cons.prems call by simp
  then have "getAccessToken cfg now ex g c = (Inr tok, c)"
    using assms(1-3) by (simp add: getAccessToken_def)
  moreover have "getAccessTokens cfg calls c = (replicate (length calls) (Inr tok), c)"
    using Cons by simp
  ultimately show ?case by (simp add: call)
qed

text \<open>
  Claim C6 as amended (token caching). The cached token is served exactly when a
  non-empty token is cached, its expiry is a valid date, and now plus the 5-minute buffer
  is before it; then \<open>getAccessToken\<close> returns it and leaves the client as it is (no
  credential exchange). Otherwise, with both credentials configured, it calls the
  credential endpoint exactly once, and on a successful answer returns the new token and
  caches it with the expiry \<open>new Date(grantedAt + expiresIn * 1000)\<close>; with a credential
  missing it throws without calling. So a sequence of calls that starts with a successful
  exchange of a non-empty token whose expiry is a valid date, and whose later calls all
  occur before expiry minus buffer, makes exactly one credential exchange, and every call
  returns that token.
\<close>

theorem getAccessToken_caching:
  "cacheValid c now =
     (\<exists>tok e. accessToken c = Some tok \<and> tok \<noteq> [] \<and> tokenExpiry c = Some (DateAt e) \<and>
        validTime (now + bufferMs) \<and> now + bufferMs < e) \<and>
   (cacheValid c now \<longrightarrow>
      (\<exists>tok. accessToken c = Some tok \<and> getAccessToken cfg now ex g c = (Inr tok, c))) \<and>
   (\<not> cacheValid c now \<and> credentialsConfigured cfg \<longrightarrow>
      authCalls (snd (getAccessToken cfg now ex g c)) = authCalls c + 1 \<and>
      (\<forall>tok n. ex = AuthOk tok n \<longrightarrow>
         getAccessToken cfg now ex g c =
           (Inr tok, c\<lparr>accessToken := Some tok,
                       tokenExpiry := Some (newDate (g + n * 1000)),
                       authCalls := authCalls c + 1\<rparr>))) \<and>
   (\<not> cacheValid c now \<and> \<not> credentialsConfigured cfg \<longrightarrow>
      getAccessToken cfg now ex g c =
        (Inl (OtherError ''SkyTab API credentials not configured''), c)) \<and>
   (\<not> cacheValid c now \<and> credentialsConfigured cfg \<and> ex = AuthOk tok n \<and> tok \<noteq> [] \<and>
    validTime (g + n * 1000) \<and>
    (\<forall>call \<in> set calls.
        validTime (fst call + bufferMs) \<and> fst call + bufferMs < g + n * 1000) \<longrightarrow>
      authCalls (snd (getAccessTokens cfg ((now, ex, g) # calls) c)) = authCalls c + 1 \<and>
      fst (getAccessTokens cfg ((now, ex, g) # calls) c) =
        replicate (Suc (length calls)) (Inr tok))"
proof (intro conjI impI)
  show "cacheValid c now =
     (\<exists>tok e. accessToken c = Some tok \<and> tok \<noteq> [] \<and> tokenExpiry c = Some (DateAt e) \<and>
        validTime (now + bufferMs) \<and> now + bufferMs < e)"
    by (rule cacheValid_iff)
next
  assume "cacheValid c now"
  then show "\<exists>tok. accessToken c = Some tok \<and> getAccessToken cfg now ex g c = (Inr tok, c)"
    by (rule getAccessToken_hit)
next
  assume a: "\<not> cacheValid c now \<and> credentialsConfigured cfg"
  then show "authCalls (snd (getAccessToken cfg now ex g c)) = authCalls c + 1"
    by (simp add: getAccessToken_miss exchangeCredentials_calls)
  show "\<forall>tok n. ex = AuthOk tok n \<longrightarrow>
         getAccessToken cfg now ex g c =
           (Inr tok, c\<lparr>accessToken := Some tok,
                       tokenExpiry := Some (newDate (g + n * 1000)),
                       authCalls := authCalls c + 1\<rparr>)"
    using a by (simp add: getAccessToken_miss exchangeCredentials_ok)
next
  assume "\<not> cacheValid c now \<and> \<not> credentialsConfigured cfg"
  then show "getAccessToken cfg now ex g c =
        (Inl (OtherError ''SkyTab API credentials not configured''), c)"
    by (simp add: getAccessToken_miss exchangeCredentials_unconfigured)
next
  assume a: "\<not> cacheValid c now \<and> credentialsConfigured cfg \<and> ex = AuthOk tok n \<and> tok \<noteq> [] \<and>
    validTime (g + n * 1000) \<and>
    (\<forall>call \<in> set calls.
        validTime (fst call + bufferMs) \<and> fst call + bufferMs < g + n * 1000)"
  let ?c1 = "c\<lparr>accessToken := Some tok, tokenExpiry := Some (newDate (g + n * 1000)),
               authCalls := authCalls c + 1\<rparr>"
  have first: "getAccessToken cfg now ex g c = (Inr tok, ?c1)"
    using a by (simp add: getAccessToken_miss exchangeCredentials_ok)
  have before: "\<forall>call \<in> set calls.
      dateBefore (newDate (fst call + bufferMs)) (newDate (g + n * 1000))"
    using a by (auto simp: newDate_def)
  have rest: "getAccessTokens cfg calls ?c1 = (replicate (length calls) (Inr tok), ?c1)"
    using a before
    by (intro getAccessTokens_all_hits[where expiry = "newDate (g + n * 1000)"]) simp_all
  show "authCalls (snd (getAccessTokens cfg ((now, ex, g) # calls) c)) = authCalls c + 1"
    using first rest by simp
  show "fst (getAccessTokens cfg ((now, ex, g) # calls) c) =
        replicate (Suc (length calls)) (Inr tok)"
    using first rest by simp
qed

theorem getAccessToken_caching_witness:
  "getAccessToken testConfig 1000 (AuthThrows (TypeError ''fetch failed'')) 1000 cachedClient =
     (Inr ''test-token-123'', cachedClient) \<and>
   authCalls (snd (getAccessToken testConfig 0 (AuthNotOk ''Unauthorized'') 0 newClient)) = 1 \<and>
   getAccessToken noCredentials 0 (AuthOk ''test-token-123'' 3600) 0 newClient =
     (Inl (OtherError ''SkyTab API credentials not configured''), newClient) \<and>
   authCalls (snd (getAccessTokens testConfig
      [(0, AuthOk ''test-token-123'' 3600, 5),
       (1000, AuthOk ''other'' 3600, 1000),
       (3000000, AuthNotOk ''Unauthorized'', 3000000)] newClient)) = 1 \<and>
   fst (getAccessTokens testConfig
      [(0, AuthOk ''test-token-123'' 3600, 5),
       (1000, AuthOk ''other'' 3600, 1000),
       (3000000, AuthNotOk ''Unauthorized'', 3000000)] newClient) =
     [Inr ''test-token-123'', Inr ''test-token-123'', Inr ''test-token-123'']"
proof -
  have cc: "credentialsConfigured testConfig"
    by (simp add: credentialsConfigured_def testConfig_def orElse_def)
  have nc: "\<not> credentialsConfigured noCredentials"
    by (simp add: credentialsConfigured_def noCredentials_def orElse_def)
  have hit: "cacheValid cachedClient 1000"
    by (simp add: cacheValid_def cachedClient_def bufferMs_def newDate_def validTime_def)
  have miss: "\<not> cacheValid newClient 0"
    by (simp add: cacheValid_def newClient_def)
  have later: "\<forall>call \<in> set [(1000, AuthOk ''other'' 3600, 1000),
       (3000000, AuthNotOk ''Unauthorized'', 3000000)].
         validTime (fst call + bufferMs) \<and> fst call + bufferMs < 5 + 3600 * 1000"
    by (simp add: bufferMs_def validTime_def)
  have valid: "validTime (5 + 3600 * 1000)"
    by (simp add: validTime_def)
  note hitCase = getAccessToken_caching[where c = cachedClient and now = 1000
      and cfg = testConfig and ex = "AuthThrows (TypeError ''fetch failed'')" and g = 1000,
      THEN conjunct2, THEN conjunct1, THEN mp, OF hit]
  have 1: "getAccessToken testConfig 1000 (AuthThrows (TypeError ''fetch failed'')) 1000
      cachedClient = (Inr ''test-token-123'', cachedClient)"
    using hitCase by (auto simp: cachedClient_def)
  have h2: "\<not> cacheValid newClient 0 \<and> credentialsConfigured testConfig"
    using miss cc by simp
  note missCase = getAccessToken_caching[where c = newClient and now = 0
      and cfg = testConfig and ex = "AuthNotOk ''Unauthorized''" and g = 0,
      THEN conjunct2, THEN conjunct2, THEN conjunct1, THEN mp, OF h2, THEN conjunct1]
  have 2: "authCalls (snd (getAccessToken testConfig 0 (AuthNotOk ''Unauthorized'') 0 newClient)) = 1"
    using missCase by (simp add: newClient_def)
  have h3: "\<not> cacheValid newClient 0 \<and> \<not> credentialsConfigured noCredentials"
    using miss nc by simp
  note guardCase = getAccessToken_caching[where c = newClient and now = 0
      and cfg = noCredentials and ex = "AuthOk ''test-token-123'' 3600" and g = 0,
      THEN conjunct2, THEN conjunct2, THEN conjunct2, THEN conjunct1, THEN mp, OF h3]
  have 3: "getAccessToken noCredentials 0 (AuthOk ''test-token-123'' 3600) 0 newClient =
     (Inl (OtherError ''SkyTab API credentials not configured''), newClient)"
    using guardCase by simp
  have h4: "\<not> cacheValid newClient 0 \<and> credentialsConfigured testConfig \<and>
      AuthOk ''test-token-123'' 3600 = AuthOk ''test-token-123'' 3600 \<and>
      ''test-token-123'' \<noteq> [] \<and> validTime (5 + 3600 * 1000) \<and>
      (\<forall>call \<in> set [(1000, AuthOk ''other'' 3600, 1000),
         (3000000, AuthNotOk ''Unauthorized'', 3000000)].
           validTime (fst call + bufferMs) \<and> fst call + bufferMs < 5 + 3600 * 1000)"
    using miss cc later valid by blast
  note seqCase = getAccessToken_caching[where c = newClient and now = 0 and cfg = testConfig
        and ex = "AuthOk ''test-token-123'' 3600" and g = 5 and tok = "''test-token-123''"
        and n = 3600
        and calls = "[(1000, AuthOk ''other'' 3600, 1000),
                      (3000000, AuthNotOk ''Unauthorized'', 3000000)]",
      THEN conjunct2, THEN conjunct2, THEN conjunct2, THEN conjunct2, THEN mp, OF h4]
  have 4: "authCalls (snd (getAccessTokens testConfig
      [(0, AuthOk ''test-token-123'' 3600, 5),
       (1000, AuthOk ''other'' 3600, 1000),
       (3000000, AuthNotOk ''Unauthorized'', 3000000)] newClient)) = 1 \<and>
   fst (getAccessTokens testConfig
      [(0, AuthOk ''test-token-123'' 3600, 5),
       (1000, AuthOk ''other'' 3600, 1000),
       (3000000, AuthNotOk ''Unauthorized'', 3000000)] newClient) =
     [Inr ''test-token-123'', Inr ''test-token-123'', Inr ''test-token-123'']"
    using seqCase by (simp add: newClient_def del: getAccessTokens.simps)
  show ?thesis using 1 2 3 4 by simp
qed

text \<open>
  Claim C6 as stated fails in four ways. With no credentials configured and nothing
  cached, the call is not served from the cache and yet makes no credential exchange. With
  the exchange rejected, one call is made and nothing is cached. With an empty token
  cached and an expiry far ahead, now plus buffer is before the expiry and yet the call
  exchanges credentials. And with \<open>expiresIn\<close> so large that the expiry is an Invalid
  Date, a second call long before that time exchanges credentials again.
\<close>

theorem getAccessToken_claim_counterexample:
  "\<not> cacheValid newClient 0 \<and>
   authCalls (snd (getAccessToken noCredentials 0 (AuthOk ''test-token-123'' 3600) 0 newClient))
     \<noteq> authCalls newClient + 1 \<and>
   accessToken (snd (getAccessToken testConfig 0 (AuthNotOk ''Unauthorized'') 0 newClient)) = None \<and>
   tokenExpiry emptyTokenClient = Some (DateAt 3600000) \<and> 0 + bufferMs < (3600000 :: int) \<and>
   authCalls (snd (getAccessToken testConfig 0 (AuthOk ''test-token-123'' 3600) 0
      emptyTokenClient)) = authCalls emptyTokenClient + 1 \<and>
   1000 + bufferMs < (0 + 10000000000000 * 1000 :: int) \<and>
   authCalls (snd (getAccessTokens testConfig
      [(0, AuthOk ''token-1'' 10000000000000, 0), (1000, AuthOk ''token-2'' 3600, 1000)]
      newClient)) = 2 \<and>
   fst (getAccessTokens testConfig
      [(0, AuthOk ''token-1'' 10000000000000, 0), (1000, AuthOk ''token-2'' 3600, 1000)]
      newClient) = [Inr ''token-1'', Inr ''token-2'']"
  by (simp add: cacheValid_def newClient_def noCredentials_def testConfig_def emptyTokenClient_def
      getAccessToken_def exchangeCredentials_def orElse_def bufferMs_def newDate_def
      validTime_def)

section \<open>Properties of the provider adapter\<close>



text \<open>The adapter's mapping lands in the statuses of \<open>POSOrderStatus\<close>.\<close>

lemma mapSkyTabStatusToLocal_defined: "mapSkyTabStatusToLocal s \<in> set posOrderStatuses"
  by (simp add: mapSkyTabStatusToLocal_def posOrderStatuses_def)

lemma mapSkyTabStatusToLocal_default:
  "s \<notin> set vendorStatuses \<Longrightarrow> mapSkyTabStatusToLocal s = ''pending''"
  by (simp add: mapSkyTabStatusToLocal_def vendorStatuses_def)

text \<open>
  Claim C9 (status mapping). Both mappings are functions of the status text, so each
  vendor status has exactly one image. For every text the adapter's image is one of the
  six statuses of \<open>POSOrderStatus\<close> and the webhook processor's image is one of
  \<open>ORDER_STATUSES\<close>; a text that is none of the seven vendor statuses is mapped to
  \<open>pending\<close> by both; and the images of the seven vendor statuses are as listed.
\<close>

theorem status_mappings_total:
  "mapSkyTabStatusToLocal s \<in> set posOrderStatuses \<and>
   mapSkyTabStatusToOrderStatus s \<in> set ORDER_STATUSES \<and>
   (s \<notin> set vendorStatuses \<longrightarrow>
      mapSkyTabStatusToLocal s = ''pending'' \<and> mapSkyTabStatusToOrderStatus s = ''pending'') \<and>
   map mapSkyTabStatusToLocal vendorStatuses =
     [''pending'', ''confirmed'', ''preparing'', ''ready'', ''ready'', ''completed'',
      ''cancelled''] \<and>
   map mapSkyTabStatusToOrderStatus vendorStatuses =
     [''pending'', ''confirmed'', ''preparing'', ''ready'', ''out-for-delivery'', ''completed'',
      ''cancelled'']"
proof (intro conjI impI)
  show "mapSkyTabStatusToLocal s \<in> set posOrderStatuses"
    by (rule mapSkyTabStatusToLocal_defined)
  show "mapSkyTabStatusToOrderStatus s \<in> set ORDER_STATUSES"
    by (simp add: mapSkyTabStatusToOrderStatus_def ORDER_STATUSES_def)
  show "map mapSkyTabStatusToLocal vendorStatuses =
     [''pending'', ''confirmed'', ''preparing'', ''ready'', ''ready'', ''completed'',
      ''cancelled'']"
    by (simp add: mapSkyTabStatusToLocal_def vendorStatuses_def)
  show "map mapSkyTabStatusToOrderStatus vendorStatuses =
     [''pending'', ''confirmed'', ''preparing'', ''ready'', ''out-for-delivery'', ''completed'',
      ''cancelled'']"
    by (simp add: mapSkyTabStatusToOrderStatus_def vendorStatuses_def)
next
  assume a: "s \<notin> set vendorStatuses"
  then show "mapSkyTabStatusToLocal s = ''pending''"
    by (rule mapSkyTabStatusToLocal_default)
  show "mapSkyTabStatusToOrderStatus s = ''pending''"
    using a by (simp add: mapSkyTabStatusToOrderStatus_def vendorStatuses_def)
qed

theorem status_mappings_total_witness:
  "''ON_HOLD'' \<notin> set vendorStatuses \<and>
   mapSkyTabStatusToLocal ''ON_HOLD'' = ''pending'' \<and>
   mapSkyTabStatusToOrderStatus ''ON_HOLD'' = ''pending'' \<and>
   mapSkyTabStatusToLocal ''OUT_FOR_DELIVERY'' \<in> set posOrderStatuses"
proof -
  have u: "''ON_HOLD'' \<notin> set vendorStatuses"
    by (simp add: vendorStatuses_def)
  show ?thesis
    using u status_mappings_total[of "''ON_HOLD''"] status_mappings_total[of "''OUT_FOR_DELIVERY''"]
    by simp
qed

section \<open>Properties of the webhook processor\<close>

lemma find_append_last: "P x \<Longrightarrow> find P (xs @ [x]) \<noteq> None"
  by (induction xs) auto

lemma find_member: "x \<in> set xs \<Longrightarrow> P x \<Longrightarrow> find P xs \<noteq> None"
  by (induction xs) auto

lemma recorded_member:
  assumes "row \<in> set (auditLog st)" and "a_action row = ''SKYTAB_WEBHOOK''"
    and "a_entityId row = eventId"
  shows "recorded eventId st"
  unfolding recorded_def using assms by (intro find_member[of row]) simp_all

lemma processWebhook_duplicate:
  assumes "fl AuditLogFindFirst = None" and "recorded (p_eventId payload) st"
  shows "processWebhook fl now payload st = (Inr (True, ''Event already processed''), st)"
  using assms by (simp add: processWebhook_def checkDuplicateEvent_def recorded_def)

lemma recordWebhookEvent_recorded:
  assumes "fl AuditLogCreate = None"
  shows "recorded eventId (recordWebhookEvent fl now eventId et lg status msg st)"
  using assms by (simp add: recordWebhookEvent_def recorded_def find_append_last)

lemma recordWebhookEvent_last:
  assumes "fl AuditLogCreate = None"
  shows "last (auditLog (recordWebhookEvent fl now eventId et lg status msg st)) =
     \<lparr>a_action = ''SKYTAB_WEBHOOK'', a_entityType = ''webhook'', a_entityId = eventId,
      a_changes = WebhookChanges et lg status msg now\<rparr>"
  using assms by (simp add: recordWebhookEvent_def)

lemma processWebhook_records:
  assumes "fl AuditLogCreate = None"
  shows "recorded (p_eventId payload) (snd (processWebhook fl now payload st))"
proof (cases "checkDuplicateEvent fl (p_eventId payload) st")
  case (Inl error)
  then show ?thesis
    using assms by (simp add: processWebhook_def recordWebhookEvent_recorded)
next
  case (Inr existingEvent)
  show ?thesis
  proof (cases existingEvent)
    case True
    then have "recorded (p_eventId payload) st"
      using Inr by (auto simp: checkDuplicateEvent_def recorded_def split: option.splits)
    then show ?thesis
      using Inr True by (simp add: processWebhook_def)
  next
    case False
    then show ?thesis
      using Inr assms
      by (auto simp: processWebhook_def recordWebhookEvent_recorded split: prod.splits option.splits)
  qed
qed

lemma processWebhook_failure_recorded:
  assumes "processWebhook fl now payload st = (Inl error, st1)" and "fl AuditLogCreate = None"
  shows "last (auditLog st1) =
     \<lparr>a_action = ''SKYTAB_WEBHOOK'', a_entityType = ''webhook'', a_entityId = p_eventId payload,
      a_changes = WebhookChanges (p_eventType payload) (p_locationGuid payload) ''failed''
        (Some (errorMessage error)) now\<rparr>"
  using assms
  by (auto simp: processWebhook_def recordWebhookEvent_last
      split: sum.splits prod.splits option.splits if_splits)

text \<open>
  Claim C3 (idempotent webhook). When the audit log can be read and already holds a
  webhook row for the event id, \<open>processWebhook\<close> returns success with the message
  "Event already processed" and leaves the whole state as it is. So when the same event
  id is delivered twice and the audit log can be written during the first delivery and
  read during the second, the second delivery changes nothing (the state after it is the
  state after the first) and reports success.
\<close>

theorem processWebhook_idempotent:
  "(fl AuditLogFindFirst = None \<and>
    (\<exists>row \<in> set (auditLog st).
        a_action row = ''SKYTAB_WEBHOOK'' \<and> a_entityId row = p_eventId payload) \<longrightarrow>
      processWebhook fl now payload st = (Inr (True, ''Event already processed''), st)) \<and>
   (fl AuditLogCreate = None \<and> fl' AuditLogFindFirst = None \<and>
    p_eventId payload' = p_eventId payload \<longrightarrow>
      processWebhook fl' now' payload' (snd (processWebhook fl now payload st)) =
        (Inr (True, ''Event already processed''), snd (processWebhook fl now payload st)))"
proof (intro conjI impI)
  assume a: "fl AuditLogFindFirst = None \<and>
    (\<exists>row \<in> set (auditLog st).
        a_action row = ''SKYTAB_WEBHOOK'' \<and> a_entityId row = p_eventId payload)"
  then have "recorded (p_eventId payload) st"
    using recorded_member by blast
  then show "processWebhook fl now payload st = (Inr (True, ''Event already processed''), st)"
    using a by (simp add: processWebhook_duplicate)
next
  assume a: "fl AuditLogCreate = None \<and> fl' AuditLogFindFirst = None \<and>
    p_eventId payload' = p_eventId payload"
  then have "recorded (p_eventId payload') (snd (processWebhook fl now payload st))"
    using processWebhook_records[of fl payload now st] by simp
  then show "processWebhook fl' now' payload' (snd (processWebhook fl now payload st)) =
        (Inr (True, ''Event already processed''), snd (processWebhook fl now payload st))"
    using a by (simp add: processWebhook_duplicate)
qed

theorem processWebhook_idempotent_witness:
  "o_status (hd (orders (snd (processWebhook noFaults 1000 preparingEvent oneOrder)))) =
     ''preparing'' \<and>
   processWebhook noFaults 2000 readyEvent
       (snd (processWebhook noFaults 1000 preparingEvent oneOrder)) =
     (Inr (True, ''Event already processed''),
      snd (processWebhook noFaults 1000 preparingEvent oneOrder))"
proof -
  have h: "noFaults AuditLogCreate = None \<and> noFaults AuditLogFindFirst = None \<and>
      p_eventId readyEvent = p_eventId preparingEvent"
    by (simp add: noFaults_def readyEvent_def preparingEvent_def)
  have first: "o_status (hd (orders (snd (processWebhook noFaults 1000 preparingEvent oneOrder))))
      = ''preparing''"
    by code_simp
  show ?thesis
    using first
      processWebhook_idempotent[where fl = noFaults and fl' = noFaults
        and payload = preparingEvent and payload' = readyEvent and now = 1000 and now' = 2000
        and st = oneOrder, THEN conjunct2, THEN mp, OF h]
    by simp
qed

text \<open>
  Claim C10 (deduplication does not look at the outcome). When \<open>processWebhook\<close> throws and
  the audit log can be written, the last audit row is the webhook row of the event with
  status \<open>failed\<close>, and every later delivery of that event id (with the audit log
  readable) is skipped: it returns success with "Event already processed" and changes
  nothing. More generally a webhook row for the event id is a duplicate marker whatever
  status it records.
\<close>

theorem failed_event_never_reprocessed:
  "(processWebhook fl now payload st = (Inl error, st') \<and> fl AuditLogCreate = None \<longrightarrow>
      last (auditLog st') =
        \<lparr>a_action = ''SKYTAB_WEBHOOK'', a_entityType = ''webhook'',
         a_entityId = p_eventId payload,
         a_changes = WebhookChanges (p_eventType payload) (p_locationGuid payload) ''failed''
           (Some (errorMessage error)) now\<rparr> \<and>
      (\<forall>fl' now' payload'.
          fl' AuditLogFindFirst = None \<and> p_eventId payload' = p_eventId payload \<longrightarrow>
            processWebhook fl' now' payload' st' =
              (Inr (True, ''Event already processed''), st'))) \<and>
   (row \<in> set (auditLog st) \<and> a_action row = ''SKYTAB_WEBHOOK'' \<and>
    a_entityId row = p_eventId payload \<and>
    a_changes row = WebhookChanges et lg recordedStatus msg t \<and>
    fl AuditLogFindFirst = None \<longrightarrow>
      processWebhook fl now payload st = (Inr (True, ''Event already processed''), st))"
proof (intro conjI impI allI)
  assume a: "processWebhook fl now payload st = (Inl error, st') \<and> fl AuditLogCreate = None"
  then show "last (auditLog st') =
        \<lparr>a_action = ''SKYTAB_WEBHOOK'', a_entityType = ''webhook'',
         a_entityId = p_eventId payload,
         a_changes = WebhookChanges (p_eventType payload) (p_locationGuid payload) ''failed''
           (Some (errorMessage error)) now\<rparr>"
    using processWebhook_failure_recorded by blast
next
  fix fl' :: faults and now' :: int and payload' :: webhook_payload
  assume a: "processWebhook fl now payload st = (Inl error, st') \<and> fl AuditLogCreate = None"
  assume b: "fl' AuditLogFindFirst = None \<and> p_eventId payload' = p_eventId payload"
  have "recorded (p_eventId payload) (snd (processWebhook fl now payload st))"
    using a processWebhook_records by blast
  then have "recorded (p_eventId payload') st'" using a b by simp
  then show "processWebhook fl' now' payload' st' =
      (Inr (True, ''Event already processed''), st')"
    using b by (simp add: processWebhook_duplicate)
next
  assume a: "row \<in> set (auditLog st) \<and> a_action row = ''SKYTAB_WEBHOOK'' \<and>
    a_entityId row = p_eventId payload \<and>
    a_changes row = WebhookChanges et lg recordedStatus msg t \<and>
    fl AuditLogFindFirst = None"
  then have "recorded (p_eventId payload) st"
    using recorded_member by blast
  then show "processWebhook fl now payload st = (Inr (True, ''Event already processed''), st)"
    using a by (simp add: processWebhook_duplicate)
qed

theorem failed_event_never_reprocessed_witness:
  "fst (processWebhook databaseError 1000 preparingEvent oneOrder) =
     Inl (OtherError ''Database error'') \<and>
   a_changes (last (auditLog (snd (processWebhook databaseError 1000 preparingEvent oneOrder)))) =
     WebhookChanges ''ticket.status_changed'' ''location-123'' ''failed''
       (Some ''Database error'') 1000 \<and>
   processWebhook noFaults 2000 preparingEvent
       (snd (processWebhook databaseError 1000 preparingEvent oneOrder)) =
     (Inr (True, ''Event already processed''),
      snd (processWebhook databaseError 1000 preparingEvent oneOrder))"
proof -
  let ?st1 = "snd (processWebhook databaseError 1000 preparingEvent oneOrder)"
  have thrown: "fst (processWebhook databaseError 1000 preparingEvent oneOrder) =
      Inl (OtherError ''Database error'')"
    by code_simp
  have h: "processWebhook databaseError 1000 preparingEvent oneOrder =
      (Inl (OtherError ''Database error''), ?st1) \<and> databaseError AuditLogCreate = None"
    using thrown by (simp add: prod_eq_iff databaseError_def)
  note failure = failed_event_never_reprocessed[where fl = databaseError and now = 1000
      and payload = preparingEvent and st = oneOrder
      and st' = "snd (processWebhook databaseError 1000 preparingEvent oneOrder)"
      and error = "OtherError ''Database error''", THEN conjunct1, THEN mp, OF h]
  have again: "noFaults AuditLogFindFirst = None \<and>
      p_eventId preparingEvent = p_eventId preparingEvent"
    by (simp add: noFaults_def)
  have skipped: "processWebhook noFaults 2000 preparingEvent ?st1 =
      (Inr (True, ''Event already processed''), ?st1)"
    using failure[THEN conjunct2, rule_format, of noFaults preparingEvent 2000] again
    by simp
  have row: "a_changes (last (auditLog ?st1)) =
      WebhookChanges ''ticket.status_changed'' ''location-123'' ''failed''
        (Some ''Database error'') 1000"
    using failure[THEN conjunct1] by (simp add: preparingEvent_def)
  show ?thesis using thrown row skipped by simp
qed

section \<open>Properties of the webhook endpoint\<close>

lemma verifySignature_length_mismatch:
  assumes "SKYTAB_WEBHOOK_SECRET cfg = Some secret" and "secret \<noteq> []"
    and "hmacSha256Hex pf secret payload = Some expected"
    and "length (bufferFromHex signature) \<noteq> length (bufferFromHex expected)"
  shows "\<not> verifySignature (pf\<lparr>timingSafeEqual := cmp\<rparr>) cfg payload signature"
  using assms by (simp add: verifySignature_def Let_def)

lemma webhookRoute_rejected:
  assumes "\<not> verifySignature pf cfg (jsonStringify pf (requestBody req)) (signatureOf req)"
  shows "webhookRoute pf cfg fl req st =
     (errorResponse ''INVALID_SIGNATURE'' ''Invalid webhook signature'' 401, st, None)"
  using assms by (simp add: webhookRoute_def Let_def)

lemma webhookRoute_accepted:
  assumes "verifySignature pf cfg (jsonStringify pf (requestBody req)) (signatureOf req)"
  shows "\<exists>err st1 task. webhookRoute pf cfg fl req st =
     (\<lparr>statusCode = 200, body = ReceivedBody err\<rparr>, st1, task)"
  using assms by (simp add: webhookRoute_def Let_def split: sum.splits)

text \<open>
  Claim C4 (responses of the webhook endpoint). When \<open>verifySignature\<close> fails, the
  delivery answers 401 with the error \<open>INVALID_SIGNATURE\<close> and leaves the state as it is
  (nothing is stored, nothing is processed). When it succeeds, the delivery answers 200
  with \<open>{ received: true }\<close>, possibly with an \<open>error\<close> member, whatever the database calls
  and the processing do. And when a secret is configured and the decoded signature and
  the decoded digest differ in length, \<open>verifySignature\<close> fails whatever
  \<open>timingSafeEqual\<close> would answer: the bytes are not compared.
\<close>

theorem webhook_endpoint_responses:
  "(\<not> verifySignature pf cfg (jsonStringify pf (requestBody req)) (signatureOf req) \<longrightarrow>
      deliverWebhook pf cfg fl now req st =
        (errorResponse ''INVALID_SIGNATURE'' ''Invalid webhook signature'' 401, st)) \<and>
   (verifySignature pf cfg (jsonStringify pf (requestBody req)) (signatureOf req) \<longrightarrow>
      (\<exists>err. fst (deliverWebhook pf cfg fl now req st) =
         \<lparr>statusCode = 200, body = ReceivedBody err\<rparr>)) \<and>
   (SKYTAB_WEBHOOK_SECRET cfg = Some secret \<and> secret \<noteq> [] \<and>
    hmacSha256Hex pf secret payload = Some expected \<and>
    length (bufferFromHex signature) \<noteq> length (bufferFromHex expected) \<longrightarrow>
      (\<forall>cmp. \<not> verifySignature (pf\<lparr>timingSafeEqual := cmp\<rparr>) cfg payload signature))"
proof (intro conjI impI allI)
  assume "\<not> verifySignature pf cfg (jsonStringify pf (requestBody req)) (signatureOf req)"
  then show "deliverWebhook pf cfg fl now req st =
        (errorResponse ''INVALID_SIGNATURE'' ''Invalid webhook signature'' 401, st)"
    by (simp add: deliverWebhook_def webhookRoute_rejected)
next
  assume "verifySignature pf cfg (jsonStringify pf (requestBody req)) (signatureOf req)"
  then obtain err st1 task where
    "webhookRoute pf cfg fl req st = (\<lparr>statusCode = 200, body = ReceivedBody err\<rparr>, st1, task)"
    using webhookRoute_accepted by blast
  then have "fst (deliverWebhook pf cfg fl now req st) =
      \<lparr>statusCode = 200, body = ReceivedBody err\<rparr>"
    by (cases task) (simp_all add: deliverWebhook_def)
  then show "\<exists>err. fst (deliverWebhook pf cfg fl now req st) =
         \<lparr>statusCode = 200, body = ReceivedBody err\<rparr>"
    by blast
next
  fix cmp
  assume "SKYTAB_WEBHOOK_SECRET cfg = Some secret \<and> secret \<noteq> [] \<and>
    hmacSha256Hex pf secret payload = Some expected \<and>
    length (bufferFromHex signature) \<noteq> length (bufferFromHex expected)"
  then show "\<not> verifySignature (pf\<lparr>timingSafeEqual := cmp\<rparr>) cfg payload signature"
    using verifySignature_length_mismatch by blast
qed

theorem webhook_endpoint_responses_witness:
  "deliverWebhook testPlatform testConfig noFaults 1000 shortSignature oneOrder =
     (errorResponse ''INVALID_SIGNATURE'' ''Invalid webhook signature'' 401, oneOrder) \<and>
   statusCode (fst (deliverWebhook testPlatform testConfig databaseError 1000 goodSignature
      oneOrder)) = 200 \<and>
   \<not> verifySignature (testPlatform\<lparr>timingSafeEqual := (\<lambda>a b. Inr True)\<rparr>) testConfig
       ''event-123'' ''abc123''"
proof -
  have bad: "\<not> verifySignature testPlatform testConfig
      (jsonStringify testPlatform (requestBody shortSignature)) (signatureOf shortSignature)"
    by code_simp
  have good: "verifySignature testPlatform testConfig
      (jsonStringify testPlatform (requestBody goodSignature)) (signatureOf goodSignature)"
    by code_simp
  have len: "SKYTAB_WEBHOOK_SECRET testConfig = Some ''test-webhook-secret'' \<and>
      ''test-webhook-secret'' \<noteq> [] \<and>
      hmacSha256Hex testPlatform ''test-webhook-secret'' ''event-123'' = Some fixedDigest \<and>
      length (bufferFromHex ''abc123'') \<noteq> length (bufferFromHex fixedDigest)"
    by code_simp
  have 1: "deliverWebhook testPlatform testConfig noFaults 1000 shortSignature oneOrder =
     (errorResponse ''INVALID_SIGNATURE'' ''Invalid webhook signature'' 401, oneOrder)"
    using webhook_endpoint_responses[where pf = testPlatform and cfg = testConfig
        and req = shortSignature and fl = noFaults and now = 1000 and st = oneOrder,
        THEN conjunct1, THEN mp, OF bad] .
  have 2: "statusCode (fst (deliverWebhook testPlatform testConfig databaseError 1000
      goodSignature oneOrder)) = 200"
    using webhook_endpoint_responses[where pf = testPlatform and cfg = testConfig
        and req = goodSignature and fl = databaseError and now = 1000 and st = oneOrder,
        THEN conjunct2, THEN conjunct1, THEN mp, OF good] by auto
  have 3: "\<not> verifySignature (testPlatform\<lparr>timingSafeEqual := (\<lambda>a b. Inr True)\<rparr>) testConfig
       ''event-123'' ''abc123''"
    using webhook_endpoint_responses[where pf = testPlatform and cfg = testConfig
        and secret = "''test-webhook-secret''" and payload = "''event-123''"
        and expected = fixedDigest and signature = "''abc123''",
        THEN conjunct2, THEN conjunct2, THEN mp, OF len] by blast
  show ?thesis using 1 2 3 by simp
qed

section \<open>Properties of the retry sweep\<close>

lemma findFailedRequests_selects:
  assumes "q \<in> set (findFailedRequests now rows)"
  shows "q \<in> set rows \<and> sweepSelects now q"
proof -
  have "q \<in> set (filter (sweepSelects now) rows)"
    using assms set_take_subset unfolding findFailedRequests_def by fastforce
  then show ?thesis by simp
qed

lemma findFailedRequests_distinct:
  assumes "distinct (map f_id rows)"
  shows "distinct (map f_id (findFailedRequests now rows))"
  using assms
  by (simp add: findFailedRequests_def take_map[symmetric] distinct_map_filter)

lemma same_id_same_row:
  assumes "distinct (map f_id rows)" and "q \<in> set rows" and "r \<in> set rows"
    and "f_id r = f_id q"
  shows "r = q"
  using assms by (meson distinct_map inj_on_def)

lemma retryOne_ids: "map f_id (snd (retryOne send now q rows)) = map f_id rows"
  by (simp add: retryOne_def updateFailedRequest_def Let_def o_def split: option.splits)

lemma updateFailedRequest_other:
  assumes "r \<in> set rows" and "f_id r \<noteq> rid"
  shows "r \<in> set (updateFailedRequest rid change rows)"
  using assms by (induction rows) (auto simp: updateFailedRequest_def)

lemma retryOne_other:
  assumes "r \<in> set rows" and "f_id r \<noteq> f_id q"
  shows "r \<in> set (snd (retryOne send now q rows))"
  using assms
  by (simp add: retryOne_def Let_def updateFailedRequest_other split: option.splits)

lemma retryOne_bound:
  assumes d: "distinct (map f_id rows)" and q: "q \<in> set rows"
    and lt: "f_retryCount q < f_maxRetries q"
    and inv: "\<forall>r \<in> set rows. f_retryCount r \<le> f_maxRetries r"
  shows "\<forall>r \<in> set (snd (retryOne send now q rows)). f_retryCount r \<le> f_maxRetries r"
proof
  fix r' assume "r' \<in> set (snd (retryOne send now q rows))"
  then obtain r where r: "r \<in> set rows"
    and r': "r' = r \<or> (f_id r = f_id q \<and> f_maxRetries r' = f_maxRetries r \<and>
               f_retryCount r' \<le> f_retryCount r + 1)"
    by (auto simp: retryOne_def updateFailedRequest_def Let_def split: option.splits if_splits)
  show "f_retryCount r' \<le> f_maxRetries r'"
  proof (cases "r' = r")
    case True
    then show ?thesis using inv r by simp
  next
    case False
    then have s: "f_id r = f_id q" "f_maxRetries r' = f_maxRetries r"
      "f_retryCount r' \<le> f_retryCount r + 1" using r' by simp_all
    have "r = q" using same_id_same_row[OF d q r s(1)] .
    then show ?thesis using s lt by simp
  qed
qed

lemma retryAll_bound:
  assumes "distinct (map f_id rows)" and "distinct (map f_id batch)"
    and "set batch \<subseteq> set rows"
    and "\<forall>q \<in> set batch. f_retryCount q < f_maxRetries q"
    and "\<forall>r \<in> set rows. f_retryCount r \<le> f_maxRetries r"
  shows "\<forall>r \<in> set (snd (retryAll fl send now batch results rows)).
           f_retryCount r \<le> f_maxRetries r"
  using assms
proof (induction batch arbitrary: results rows)
  case Nil
  then show ?case by simp
next
  case (Cons q rest)
  show ?case
  proof (cases "fl FailedRequestUpdate")
    case (Some msg)
    then show ?thesis using Cons.prems(5) by simp
  next
    case None
    obtain result rows1 where step: "retryOne send now q rows = (result, rows1)"
      by (cases "retryOne send now q rows") auto
    have rows1: "rows1 = snd (retryOne send now q rows)" using step by simp
    have d1: "distinct (map f_id rows1)"
      using Cons.prems(1) by (simp add: rows1 retryOne_ids)
    have sub: "set rest \<subseteq> set rows1"
    proof
      fix r assume r: "r \<in> set rest"
      then have "f_id r \<noteq> f_id q" using Cons.prems(2) by (force simp: image_iff)
      moreover have "r \<in> set rows" using r Cons.prems(3) by auto
      ultimately show "r \<in> set rows1" by (simp add: rows1 retryOne_other)
    qed
    have b1: "\<forall>r \<in> set rows1. f_retryCount r \<le> f_maxRetries r"
      unfolding rows1
      using Cons.prems by (intro retryOne_bound) auto
    have "\<forall>r \<in> set (snd (retryAll fl send now rest (results @ [result]) rows1)).
           f_retryCount r \<le> f_maxRetries r"
      using Cons.prems(2,4) d1 sub b1 by (intro Cons.IH) auto
    then show ?thesis using None step by simp
  qed
qed

lemma retryAll_untouched:
  assumes "r \<in> set rows" and "f_id r \<notin> f_id ` set batch"
  shows "r \<in> set (snd (retryAll fl send now batch results rows))"
  using assms
proof (induction batch arbitrary: results rows)
  case Nil
  then show ?case by simp
next
  case (Cons q rest)
  show ?case
  proof (cases "fl FailedRequestUpdate")
    case (Some msg)
    then show ?thesis using Cons.prems(1) by simp
  next
    case None
    obtain result rows1 where step: "retryOne send now q rows = (result, rows1)"
      by (cases "retryOne send now q rows") auto
    have "r \<in> set rows1"
      using retryOne_other[of r rows q send now] Cons.prems step by auto
    then have "r \<in> set (snd (retryAll fl send now rest (results @ [result]) rows1))"
      using Cons.prems(2) by (intro Cons.IH) auto
    then show ?thesis using None step by simp
  qed
qed

lemma retryOne_abandons:
  assumes "q \<in> set rows" and "f_requestType q = ''order_submit''"
    and "send (f_orderId q) = Some msg" and "f_retryCount q + 1 \<ge> f_maxRetries q"
  shows "q\<lparr>f_status := ''abandoned'', f_retryCount := f_retryCount q + 1,
           f_nextRetryAt := Some (now + nextRetryDelay (f_retryCount q)),
           f_errorMessage := Some msg\<rparr> \<in> set (snd (retryOne send now q rows))"
  using assms
  by (auto simp: retryOne_def updateFailedRequest_def Let_def image_iff intro!: bexI[of _ q])

lemma retryAll_abandons:
  assumes "fl FailedRequestUpdate = None" and "distinct (map f_id batch)"
    and "q \<in> set batch" and "set batch \<subseteq> set rows"
    and "f_requestType q = ''order_submit''"
    and "send (f_orderId q) = Some msg" and "f_retryCount q + 1 \<ge> f_maxRetries q"
  shows "q\<lparr>f_status := ''abandoned'', f_retryCount := f_retryCount q + 1,
           f_nextRetryAt := Some (now + nextRetryDelay (f_retryCount q)),
           f_errorMessage := Some msg\<rparr>
         \<in> set (snd (retryAll fl send now batch results rows))"
  using assms(2,3,4)
proof (induction batch arbitrary: results rows)
  case Nil
  then show ?case by simp
next
  case (Cons h rest)
  let ?q' = "q\<lparr>f_status := ''abandoned'', f_retryCount := f_retryCount q + 1,
           f_nextRetryAt := Some (now + nextRetryDelay (f_retryCount q)),
           f_errorMessage := Some msg\<rparr>"
  obtain result rows1 where step: "retryOne send now h rows = (result, rows1)"
    by (cases "retryOne send now h rows") auto
  have rows1: "rows1 = snd (retryOne send now h rows)" using step by simp
  have sub: "set rest \<subseteq> set rows1"
  proof
    fix r assume r: "r \<in> set rest"
    then have "f_id r \<noteq> f_id h" using Cons.prems(1) by (force simp: image_iff)
    moreover have "r \<in> set rows" using r Cons.prems(3) by auto
    ultimately show "r \<in> set rows1" by (simp add: rows1 retryOne_other)
  qed
  show ?case
  proof (cases "q = h")
    case True
    have "q \<in> set rows" using True Cons.prems(3) by simp
    then have "?q' \<in> set (snd (retryOne send now q rows))"
      using assms(5-7) by (rule retryOne_abandons)
    then have "?q' \<in> set rows1" using True rows1 by simp
    moreover have "f_id ?q' \<notin> f_id ` set rest"
      using True Cons.prems(1) by auto
    ultimately have "?q' \<in> set (snd (retryAll fl send now rest (results @ [result]) rows1))"
      by (intro retryAll_untouched)
    then show ?thesis using assms(1) step by simp
  next
    case False
    then have "q \<in> set rest" using Cons.prems(2) by simp
    then have "?q' \<in> set (snd (retryAll fl send now rest (results @ [result]) rows1))"
      using Cons.prems(1) sub by (intro Cons.IH) auto
    then show ?thesis using assms(1) step by simp
  qed
qed

text \<open>
  Claim C5 (bounds of the retry queue). Every row the sweep selects is pending or retrying
  with \<open>retryCount < maxRetries\<close>; a completed or abandoned row is never selected. If the
  ids are distinct and no row's \<open>retryCount\<close> exceeds its \<open>maxRetries\<close> before a sweep,
  none does after it. And when the table can be read and written, a selected order-submit
  row whose retry fails with \<open>retryCount + 1 >= maxRetries\<close> is, after the sweep, abandoned
  with its count incremented.
\<close>

theorem retry_sweep_bounds:
  "(\<forall>q \<in> set (findFailedRequests now rows).
      (f_status q = ''pending'' \<or> f_status q = ''retrying'') \<and>
      f_retryCount q < f_maxRetries q) \<and>
   (\<forall>r \<in> set rows.
      f_status r = ''completed'' \<or> f_status r = ''abandoned'' \<longrightarrow>
        r \<notin> set (findFailedRequests now rows)) \<and>
   (distinct (map f_id rows) \<and> (\<forall>r \<in> set rows. f_retryCount r \<le> f_maxRetries r) \<longrightarrow>
      (\<forall>r \<in> set (snd (retryFailedRoute fl send now rows)).
         f_retryCount r \<le> f_maxRetries r)) \<and>
   (fl FailedRequestFindMany = None \<and> fl FailedRequestUpdate = None \<and>
    distinct (map f_id rows) \<and> q \<in> set (findFailedRequests now rows) \<and>
    f_requestType q = ''order_submit'' \<and> send (f_orderId q) = Some msg \<and>
    f_maxRetries q \<le> f_retryCount q + 1 \<longrightarrow>
      q\<lparr>f_status := ''abandoned'', f_retryCount := f_retryCount q + 1,
        f_nextRetryAt := Some (now + nextRetryDelay (f_retryCount q)),
        f_errorMessage := Some msg\<rparr>
      \<in> set (snd (retryFailedRoute fl send now rows)))"
proof (intro conjI ballI impI)
  fix q assume "q \<in> set (findFailedRequests now rows)"
  then have s: "sweepSelects now q" using findFailedRequests_selects by blast
  show "f_status q = ''pending'' \<or> f_status q = ''retrying''"
    using s by (simp add: sweepSelects_def)
  show "f_retryCount q < f_maxRetries q"
    using s by (simp add: sweepSelects_def)
next
  fix r assume "r \<in> set rows" and t: "f_status r = ''completed'' \<or> f_status r = ''abandoned''"
  show "r \<notin> set (findFailedRequests now rows)"
  proof
    assume "r \<in> set (findFailedRequests now rows)"
    then have "sweepSelects now r" using findFailedRequests_selects by blast
    then show False using t by (auto simp: sweepSelects_def)
  qed
next
  fix r assume a: "distinct (map f_id rows) \<and> (\<forall>r \<in> set rows. f_retryCount r \<le> f_maxRetries r)"
    and r: "r \<in> set (snd (retryFailedRoute fl send now rows))"
  show "f_retryCount r \<le> f_maxRetries r"
  proof (cases "fl FailedRequestFindMany")
    case (Some m)
    then show ?thesis using a r by (simp add: retryFailedRoute_def)
  next
    case None
    have "\<forall>r \<in> set (snd (retryAll fl send now (findFailedRequests now rows) [] rows)).
        f_retryCount r \<le> f_maxRetries r"
    proof (intro retryAll_bound)
      show "distinct (map f_id rows)" using a by simp
      show "distinct (map f_id (findFailedRequests now rows))"
        using a by (simp add: findFailedRequests_distinct)
      show "set (findFailedRequests now rows) \<subseteq> set rows"
        using findFailedRequests_selects by blast
      show "\<forall>q \<in> set (findFailedRequests now rows). f_retryCount q < f_maxRetries q"
        using findFailedRequests_selects by (auto simp: sweepSelects_def)
      show "\<forall>r \<in> set rows. f_retryCount r \<le> f_maxRetries r" using a by simp
    qed
    then show ?thesis using None r by (simp add: retryFailedRoute_def)
  qed
next
  assume a: "fl FailedRequestFindMany = None \<and> fl FailedRequestUpdate = None \<and>
    distinct (map f_id rows) \<and> q \<in> set (findFailedRequests now rows) \<and>
    f_requestType q = ''order_submit'' \<and> send (f_orderId q) = Some msg \<and>
    f_maxRetries q \<le> f_retryCount q + 1"
  have "q\<lparr>f_status := ''abandoned'', f_retryCount := f_retryCount q + 1,
        f_nextRetryAt := Some (now + nextRetryDelay (f_retryCount q)),
        f_errorMessage := Some msg\<rparr>
      \<in> set (snd (retryAll fl send now (findFailedRequests now rows) [] rows))"
  proof (intro retryAll_abandons)
    show "fl FailedRequestUpdate = None" using a by simp
    show "distinct (map f_id (findFailedRequests now rows))"
      using a by (simp add: findFailedRequests_distinct)
    show "q \<in> set (findFailedRequests now rows)" using a by simp
    show "set (findFailedRequests now rows) \<subseteq> set rows"
      using findFailedRequests_selects by blast
    show "f_requestType q = ''order_submit''" using a by simp
    show "send (f_orderId q) = Some msg" using a by simp
    show "f_maxRetries q \<le> f_retryCount q + 1" using a by simp
  qed
  then show "q\<lparr>f_status := ''abandoned'', f_retryCount := f_retryCount q + 1,
        f_nextRetryAt := Some (now + nextRetryDelay (f_retryCount q)),
        f_errorMessage := Some msg\<rparr>
      \<in> set (snd (retryFailedRoute fl send now rows))"
    using a by (simp add: retryFailedRoute_def)
qed

theorem retry_sweep_bounds_witness:
  "queuedRow \<in> set (findFailedRequests 60000 [queuedRow, abandonedRow]) \<and>
   f_retryCount queuedRow < f_maxRetries queuedRow \<and>
   abandonedRow \<notin> set (findFailedRequests 60000 [queuedRow, abandonedRow]) \<and>
   queuedRow\<lparr>f_status := ''abandoned'', f_retryCount := 5, f_nextRetryAt := Some 92000,
     f_errorMessage := Some ''Service unavailable''\<rparr>
     \<in> set (snd (retryFailedRoute noFaults posDown 60000 [queuedRow, abandonedRow])) \<and>
   f_retryCount (queuedRow\<lparr>f_status := ''abandoned'', f_retryCount := 5,
     f_nextRetryAt := Some 92000, f_errorMessage := Some ''Service unavailable''\<rparr>)
     \<le> f_maxRetries queuedRow"
proof -
  let ?rows = "[queuedRow, abandonedRow]"
  note inst = retry_sweep_bounds[where now = 60000 and rows = "[queuedRow, abandonedRow]"
      and fl = noFaults and send = posDown and q = queuedRow
      and msg = "''Service unavailable''"]
  have sel: "queuedRow \<in> set (findFailedRequests 60000 ?rows)"
    by code_simp
  have d: "distinct (map f_id ?rows)"
    by (simp add: queuedRow_def abandonedRow_def)
  have inv: "\<forall>r \<in> set ?rows. f_retryCount r \<le> f_maxRetries r"
    by (simp add: queuedRow_def abandonedRow_def)
  have fin: "abandonedRow \<in> set ?rows \<and>
      (f_status abandonedRow = ''completed'' \<or> f_status abandonedRow = ''abandoned'')"
    by (simp add: abandonedRow_def)
  have 1: "f_retryCount queuedRow < f_maxRetries queuedRow"
    using inst[THEN conjunct1, rule_format, OF sel] by simp
  have 2: "abandonedRow \<notin> set (findFailedRequests 60000 ?rows)"
    using inst[THEN conjunct2, THEN conjunct1, rule_format, of abandonedRow] fin by blast
  have h4: "noFaults FailedRequestFindMany = None \<and> noFaults FailedRequestUpdate = None \<and>
    distinct (map f_id ?rows) \<and> queuedRow \<in> set (findFailedRequests 60000 ?rows) \<and>
    f_requestType queuedRow = ''order_submit'' \<and>
    posDown (f_orderId queuedRow) = Some ''Service unavailable'' \<and>
    f_maxRetries queuedRow \<le> f_retryCount queuedRow + 1"
    using sel d by (simp add: noFaults_def posDown_def queuedRow_def)
  have 3: "queuedRow\<lparr>f_status := ''abandoned'', f_retryCount := 5, f_nextRetryAt := Some 92000,
     f_errorMessage := Some ''Service unavailable''\<rparr>
     \<in> set (snd (retryFailedRoute noFaults posDown 60000 ?rows))"
    using inst[THEN conjunct2, THEN conjunct2, THEN conjunct2, THEN mp, OF h4]
    by (simp add: queuedRow_def nextRetryDelay_def)
  have h3: "distinct (map f_id ?rows) \<and> (\<forall>r \<in> set ?rows. f_retryCount r \<le> f_maxRetries r)"
    using d inv by simp
  have 4: "f_retryCount (queuedRow\<lparr>f_status := ''abandoned'', f_retryCount := 5,
     f_nextRetryAt := Some 92000, f_errorMessage := Some ''Service unavailable''\<rparr>)
     \<le> f_maxRetries queuedRow"
    using inst[THEN conjunct2, THEN conjunct2, THEN conjunct1, THEN mp, OF h3, rule_format, OF 3]
    by simp
  show ?thesis using sel 1 2 3 4 by simp
qed

end
